theory Spec2Isabelle
  imports Complex_Main "HOL-Library.Monad_Syntax"
begin

section \<open>JavaScript values\<close>

text \<open>
  The component of \<^verbatim>\<open>src/unnamed/part_000\<close> (the \<^verbatim>\<open>TranscriptionApp\<close> that
  reconnects) exchanges JSON frames with the server and stores
  whatever a frame carries, so the values are modelled as JavaScript has them.  A
  number is a double: finite, infinite or NaN; nothing here computes with one, they are
  only tested for truthiness and passed on.
\<close>

datatype jsnum = Finite rat | PosInf | NegInf | NaN

datatype jsval =
    JUndefined
  | JNull
  | JBool bool
  | JNum jsnum
  | JStr string
  | JArr "jsval list"
  | JObj "(string \<times> jsval) list"

text \<open>JavaScript truthiness, as used by \<^verbatim>\<open>!x\<close>, \<^verbatim>\<open>x || y\<close> and \<^verbatim>\<open>if (x)\<close>.\<close>

fun truthy :: "jsval \<Rightarrow> bool" where
  "truthy JUndefined = False"
| "truthy JNull = False"
| "truthy (JBool b) = b"
| "truthy (JNum n) = (n \<noteq> Finite 0 \<and> n \<noteq> NaN)"
| "truthy (JStr s) = (s \<noteq> [])"
| "truthy (JArr xs) = True"
| "truthy (JObj kvs) = True"

text \<open>The operator \<^verbatim>\<open>a || b\<close>.\<close>

definition js_or :: "jsval \<Rightarrow> jsval \<Rightarrow> jsval" where
  "js_or a b = (if truthy a then a else b)"

text \<open>
  Property access \<^verbatim>\<open>v.k\<close> for the property names this component reads
  (\<^verbatim>\<open>type\<close>, \<^verbatim>\<open>text\<close>, \<^verbatim>\<open>translated_text\<close>, \<^verbatim>\<open>message\<close>,
  \<^verbatim>\<open>is_recording\<close> and the seven parameter names), none of which is defined on a
  built-in prototype.  Reading a property of \<^verbatim>\<open>null\<close> or \<^verbatim>\<open>undefined\<close> throws a
  TypeError, which is the result \<open>None\<close> of \<open>getProp\<close>; an object yields its own
  property, and any other value yields \<^verbatim>\<open>undefined\<close>.
\<close>

definition nullish :: "jsval \<Rightarrow> bool" where
  "nullish v = (v = JUndefined \<or> v = JNull)"

fun propOf :: "jsval \<Rightarrow> string \<Rightarrow> jsval" where
  "propOf (JObj kvs) k = (case map_of kvs k of None \<Rightarrow> JUndefined | Some v \<Rightarrow> v)"
| "propOf v k = JUndefined"

definition getProp :: "jsval \<Rightarrow> string \<Rightarrow> jsval option" where
  "getProp v k = (if nullish v then None else Some (propOf v k))"

text \<open>
  \<^verbatim>\<open>JSON.stringify\<close>.  The encoders of the two primitive kinds, string literals
  (\<open>es\<close>) and numbers (\<open>en\<close>), are parameters; the structure is written out: a
  property whose value is \<^verbatim>\<open>undefined\<close> is omitted from an object, an
  \<^verbatim>\<open>undefined\<close> array element is written \<^verbatim>\<open>null\<close>, and
  \<^verbatim>\<open>JSON.stringify(undefined)\<close> is not a string at all (\<open>None\<close>).
\<close>

fun commas :: "string list \<Rightarrow> string" where
  "commas [] = []"
| "commas [x] = x"
| "commas (x # y # ys) = x @ '','' @ commas (y # ys)"

fun stringify :: "(string \<Rightarrow> string) \<Rightarrow> (jsnum \<Rightarrow> string) \<Rightarrow> jsval \<Rightarrow> string option" where
  "stringify es en JUndefined = None"
| "stringify es en JNull = Some ''null''"
| "stringify es en (JBool b) = Some (if b then ''true'' else ''false'')"
| "stringify es en (JNum n) = Some (en n)"
| "stringify es en (JStr s) = Some (es s)"
| "stringify es en (JArr xs) =
     Some (''['' @ commas (map (\<lambda>x. case stringify es en x of None \<Rightarrow> ''null'' | Some s \<Rightarrow> s) xs) @ '']'')"
| "stringify es en (JObj kvs) =
     Some (''{'' @ commas (concat (map (\<lambda>kv. case stringify es en (snd kv) of
                                                None \<Rightarrow> []
                                              | Some s \<Rightarrow> [es (fst kv) @ '':'' @ s]) kvs)) @ ''}'')"

section \<open>The component's state\<close>

text \<open>
  \<^verbatim>\<open>interface TranscriptionState\<close>, the value held by \<^verbatim>\<open>useState\<close>.  The field
  \<^verbatim>\<open>text\<close> is named \<open>text'\<close> here.  The TypeScript types say \<^verbatim>\<open>string\<close>,
  but the handlers store the field of a parsed frame unchecked, so the fields hold
  JavaScript values.
\<close>

record TranscriptionState =
  isRecording :: bool
  text' :: jsval
  translatedText :: jsval
  error :: jsval
  sessionId :: "string option"

text \<open>
  The environment a handler runs in: WebSocket objects and pending timers.  A handler is
  a closure, and the only thing of its defining render it reads is
  \<^verbatim>\<open>state.isRecording\<close>.  \<^verbatim>\<open>state\<close> is a constant of one render: \<^verbatim>\<open>setState\<close>
  builds a new object for the next render and never changes the one a closure already
  holds.  So every closure is represented by its kind and the value of
  \<^verbatim>\<open>state.isRecording\<close> it captured, and every function of the component body takes
  that captured value as its first argument \<open>rec\<close>.  The refs
  (\<^verbatim>\<open>useRef\<close>) are shared cells and are read where the code reads them.
\<close>

datatype readyState = CONNECTING | OPEN | CLOSING | CLOSED

datatype onopen_h =
    OpenStart             \<comment> \<open>\<^verbatim>\<open>ws.onopen\<close> assigned in \<^verbatim>\<open>startRecording\<close>\<close>
  | OpenReconnect bool    \<comment> \<open>\<^verbatim>\<open>ws.onopen\<close> assigned in the reconnect timer callback\<close>

datatype onclose_h =
    CloseReconnect bool   \<comment> \<open>\<^verbatim>\<open>ws.onclose\<close> assigned in the reconnect timer callback\<close>
  | CloseSetup bool       \<comment> \<open>\<^verbatim>\<open>ws.onclose\<close> assigned in \<^verbatim>\<open>setupWebSocketHandlers\<close>\<close>

record socket =
  url :: string
  readyState :: readyState
  onopen :: "onopen_h option"
  onmessage :: bool                \<comment> \<open>whether \<^verbatim>\<open>ws.onmessage\<close> has been assigned\<close>
  onerror :: "bool option"         \<comment> \<open>the captured flag of the assigned \<^verbatim>\<open>ws.onerror\<close>\<close>
  onclose :: "onclose_h option"
  sent :: "jsval list"             \<comment> \<open>the values given to \<^verbatim>\<open>ws.send(JSON.stringify(...))\<close>, in order\<close>

datatype timer_cb =
    ReconnectCb bool       \<comment> \<open>the \<^verbatim>\<open>setTimeout\<close> callback of \<^verbatim>\<open>reconnectWebSocket\<close>\<close>
  | PingCb bool nat        \<comment> \<open>the \<^verbatim>\<open>setInterval\<close> callback of \<^verbatim>\<open>setupWebSocketHandlers(ws)\<close>\<close>
  | CloseDelayCb bool      \<comment> \<open>the 500 ms \<^verbatim>\<open>setTimeout\<close> callback inside \<^verbatim>\<open>ws.onclose\<close>\<close>
  | ConnCheckCb bool       \<comment> \<open>the \<^verbatim>\<open>connectionCheckInterval\<close> callback of the effect\<close>
  | PollCb bool            \<comment> \<open>\<^verbatim>\<open>pollSessionStatus\<close>, given to \<^verbatim>\<open>setInterval\<close> by the effect\<close>

record timer =
  handle :: nat
  delay :: nat             \<comment> \<open>milliseconds\<close>
  repeats :: bool          \<comment> \<open>\<^verbatim>\<open>setInterval\<close> rather than \<^verbatim>\<open>setTimeout\<close>\<close>
  callback :: timer_cb

text \<open>
  The React state, the seven refs, the effect that is currently mounted (the value of its
  dependency \<^verbatim>\<open>state.isRecording\<close> and the handle \<^verbatim>\<open>connectionCheckInterval\<close> its
  cleanup holds), the pending timers and the WebSocket objects created so far (a
  WebSocket is identified by its position in the list).  A timer handle is a positive
  integer in a browser, so a handle that is not \<^verbatim>\<open>null\<close> is truthy.
\<close>

record world =
  state :: TranscriptionState
  wsRef :: "nat option"
  reconnectTimeoutRef :: "nat option"
  reconnectAttemptsRef :: nat
  pingIntervalRef :: "nat option"
  sessionIdRef :: "string option"
  recordingParamsRef :: jsval
  statusPollIntervalRef :: "nat option"
  effect :: "(bool \<times> nat) option"
  timers :: "timer list"
  nextTimer :: nat
  sockets :: "socket list"

definition initialState :: TranscriptionState where
  "initialState = \<lparr>isRecording = False, text' = JStr [], translatedText = JStr [],
                    error = JNull, sessionId = None\<rparr>"

definition initialWorld :: world where
  "initialWorld = \<lparr>state = initialState, wsRef = None, reconnectTimeoutRef = None,
                    reconnectAttemptsRef = 0, pingIntervalRef = None, sessionIdRef = None,
                    recordingParamsRef = JNull, statusPollIntervalRef = None, effect = None,
                    timers = [], nextTimer = 1, sockets = []\<rparr>"

subsection \<open>Platform operations\<close>

text \<open>\<^verbatim>\<open>setState((prev) => ...)\<close>.\<close>

definition setState :: "(TranscriptionState \<Rightarrow> TranscriptionState) \<Rightarrow> world \<Rightarrow> world" where
  "setState f w = w\<lparr>state := f (state w)\<rparr>"

text \<open>
  \<^verbatim>\<open>setTimeout\<close> / \<^verbatim>\<open>setInterval\<close>: the handle returned is \<open>nextTimer w\<close>, read
  before the call.  \<^verbatim>\<open>clearTimeout\<close> / \<^verbatim>\<open>clearInterval\<close> remove the timer with that
  handle, if it is still pending.  \<open>clearRef\<close> is the idiom
  \<^verbatim>\<open>if (ref.current) clearTimeout(ref.current)\<close>.
\<close>

definition setTimer :: "nat \<Rightarrow> bool \<Rightarrow> timer_cb \<Rightarrow> world \<Rightarrow> world" where
  "setTimer d r c w =
     w\<lparr>timers := timers w @ [\<lparr>handle = nextTimer w, delay = d, repeats = r, callback = c\<rparr>],
       nextTimer := Suc (nextTimer w)\<rparr>"

definition clearTimer :: "nat \<Rightarrow> world \<Rightarrow> world" where
  "clearTimer h w = w\<lparr>timers := filter (\<lambda>t. handle t \<noteq> h) (timers w)\<rparr>"

definition clearRef :: "nat option \<Rightarrow> world \<Rightarrow> world" where
  "clearRef r w = (case r of None \<Rightarrow> w | Some h \<Rightarrow> clearTimer h w)"

text \<open>
  \<^verbatim>\<open>new WebSocket(url)\<close>: the new object is \<open>length (sockets w)\<close>, read before the call.
  \<^verbatim>\<open>ws.send\<close> transmits on an open socket and discards the data on a closing or closed
  one; on a connecting socket it throws, and so does whatever else the platform refuses:
  where the source has control flow that depends on it, the caller takes a flag that says
  whether the call throws.  \<^verbatim>\<open>ws.close()\<close> starts the closing handshake.
\<close>

definition updSocket :: "nat \<Rightarrow> (socket \<Rightarrow> socket) \<Rightarrow> world \<Rightarrow> world" where
  "updSocket i f w =
     (if i < length (sockets w) then w\<lparr>sockets := (sockets w)[i := f (sockets w ! i)]\<rparr> else w)"

definition newWebSocket :: "string \<Rightarrow> world \<Rightarrow> world" where
  "newWebSocket u w =
     w\<lparr>sockets := sockets w @ [\<lparr>url = u, readyState = CONNECTING, onopen = None,
                                 onmessage = False, onerror = None, onclose = None, sent = []\<rparr>]\<rparr>"

definition wsSend :: "nat \<Rightarrow> jsval \<Rightarrow> world \<Rightarrow> world" where
  "wsSend i v = updSocket i (\<lambda>s. if readyState s = OPEN then s\<lparr>sent := sent s @ [v]\<rparr> else s)"

definition wsClose :: "nat \<Rightarrow> world \<Rightarrow> world" where
  "wsClose i = updSocket i (\<lambda>s. if readyState s = CONNECTING \<or> readyState s = OPEN
                                  then s\<lparr>readyState := CLOSING\<rparr> else s)"

definition wsIs :: "readyState \<Rightarrow> nat \<Rightarrow> world \<Rightarrow> bool" where
  "wsIs r i w = (i < length (sockets w) \<and> readyState (sockets w ! i) = r)"

text \<open>
  The template literal \<^verbatim>\<open>`ws://localhost:8000/ws/transcribe/${id}`\<close>: a \<^verbatim>\<open>null\<close> id is
  interpolated as the text \<^verbatim>\<open>null\<close>.
\<close>

definition ws_url :: "string option \<Rightarrow> string" where
  "ws_url sid = ''ws://localhost:8000/ws/transcribe/'' @ (case sid of None \<Rightarrow> ''null'' | Some s \<Rightarrow> s)"

definition pingFrame :: jsval where "pingFrame = JObj [(''type'', JStr ''ping'')]"
definition stopFrame :: jsval where "stopFrame = JObj [(''type'', JStr ''stop'')]"
definition clearFrame :: jsval where "clearFrame = JObj [(''type'', JStr ''clear'')]"

section \<open>The connection manager\<close>

subsection \<open>\<^verbatim>\<open>reconnectWebSocket\<close>\<close>

text \<open>
  The constant \<^verbatim>\<open>delay\<close> of \<^verbatim>\<open>reconnectWebSocket\<close>, as a function of
  \<^verbatim>\<open>reconnectAttemptsRef.current\<close>.  The counter only ever holds \<open>0\<close> or the result
  of \<^verbatim>\<open>++\<close>, so it is a natural number; \<^verbatim>\<open>Math.pow\<close> and the product are exact on
  doubles until they overflow to \<^verbatim>\<open>Infinity\<close>, where \<^verbatim>\<open>Math.min\<close> yields the cap
  as it does here.
\<close>

definition reconnectDelay :: "nat \<Rightarrow> nat" where
  "reconnectDelay k = (if k = 0 then 100 else min (1000 * 2 ^ (k - 1)) 10000)"

text \<open>\<^verbatim>\<open>!sessionIdRef.current\<close>: \<^verbatim>\<open>null\<close> and the empty string are falsy.\<close>

definition falsyStr :: "string option \<Rightarrow> bool" where
  "falsyStr r = (case r of None \<Rightarrow> True | Some s \<Rightarrow> s = [])"

text \<open>
  The callback given to \<^verbatim>\<open>setTimeout\<close> is created here, in the same render as the
  guard that has just tested \<^verbatim>\<open>state.isRecording\<close>; it and the handlers it assigns
  later hold the same \<^verbatim>\<open>state\<close>, hence the same flag \<open>rec\<close>.
\<close>

definition reconnectWebSocket :: "bool \<Rightarrow> world \<Rightarrow> world" where
  "reconnectWebSocket rec w =
     (if \<not> rec \<or> falsyStr (sessionIdRef w) \<or> \<not> truthy (recordingParamsRef w) then w
      else
        let w1 = clearRef (reconnectTimeoutRef w) w;
            d = reconnectDelay (reconnectAttemptsRef w1);
            w2 = w1\<lparr>reconnectAttemptsRef := Suc (reconnectAttemptsRef w1)\<rparr>
        in (setTimer d False (ReconnectCb rec) w2)\<lparr>reconnectTimeoutRef := Some (nextTimer w2)\<rparr>)"

subsection \<open>\<^verbatim>\<open>setupWebSocketHandlers\<close>\<close>

text \<open>
  Replaces the keepalive interval (10000 ms) and assigns \<^verbatim>\<open>onmessage\<close>,
  \<^verbatim>\<open>onerror\<close> and \<^verbatim>\<open>onclose\<close> of the given socket.
\<close>

definition setupWebSocketHandlers :: "bool \<Rightarrow> nat \<Rightarrow> world \<Rightarrow> world" where
  "setupWebSocketHandlers rec ws w =
     (let w1 = clearRef (pingIntervalRef w) w;
          w2 = (setTimer 10000 True (PingCb rec ws) w1)\<lparr>pingIntervalRef := Some (nextTimer w1)\<rparr>
      in updSocket ws (\<lambda>s. s\<lparr>onmessage := True, onerror := Some rec,
                              onclose := Some (CloseSetup rec)\<rparr>) w2)"

text \<open>
  The keepalive callback.  \<^verbatim>\<open>ws\<close> is the socket the interval was set up for, an
  object, so \<^verbatim>\<open>ws &&\<close> holds and \<^verbatim>\<open>!ws\<close> does not.  \<open>throws\<close> says whether
  \<^verbatim>\<open>ws.send\<close> throws inside the \<^verbatim>\<open>try\<close>.
\<close>

definition pingFired :: "bool \<Rightarrow> nat \<Rightarrow> bool \<Rightarrow> world \<Rightarrow> world" where
  "pingFired rec ws throws w =
     (if wsIs OPEN ws w then
        (if throws then (if rec then reconnectWebSocket rec w else w)
         else wsSend ws pingFrame w)
      else if rec \<and> wsIs CLOSED ws w then reconnectWebSocket rec w
      else w)"

text \<open>\<^verbatim>\<open>ws.onerror\<close>, in both places where it is assigned.\<close>

definition onerrorHandler :: "bool \<Rightarrow> world \<Rightarrow> world" where
  "onerrorHandler rec w = (if rec then reconnectWebSocket rec w else w)"

text \<open>\<^verbatim>\<open>ws.onclose\<close> with the close code, and the 500 ms callback of the second variant.\<close>

definition oncloseHandler :: "onclose_h \<Rightarrow> nat \<Rightarrow> world \<Rightarrow> world" where
  "oncloseHandler h code w =
     (case h of
        CloseReconnect rec \<Rightarrow> if rec \<and> code \<noteq> 1000 then reconnectWebSocket rec w else w
      | CloseSetup rec \<Rightarrow> if rec then setTimer 500 False (CloseDelayCb rec) w else w)"

definition closeDelayFired :: "bool \<Rightarrow> world \<Rightarrow> world" where
  "closeDelayFired rec w = (if rec then reconnectWebSocket rec w else w)"

subsection \<open>The reconnect timer callback and the handlers it assigns\<close>

text \<open>
  The object literal that the reconnect \<^verbatim>\<open>ws.onopen\<close> serialises: seven property
  reads of \<^verbatim>\<open>recordingParamsRef.current\<close>, the first of which throws when the ref is
  \<^verbatim>\<open>null\<close>.
\<close>

definition reconnectFrame :: "jsval \<Rightarrow> jsval option" where
  "reconnectFrame p =
     do {
       m \<leftarrow> getProp p ''method'';
       r \<leftarrow> getProp p ''recognizer_type'';
       s \<leftarrow> getProp p ''source'';
       l \<leftarrow> getProp p ''language'';
       c \<leftarrow> getProp p ''chunk_duration'';
       e \<leftarrow> getProp p ''enable_translation'';
       t \<leftarrow> getProp p ''target_language'';
       Some (JObj [(''method'', m), (''recognizer_type'', r), (''source'', s), (''language'', l),
                   (''chunk_duration'', c), (''enable_translation'', e), (''target_language'', t)])
     }"

definition onopenReconnect :: "bool \<Rightarrow> nat \<Rightarrow> world \<Rightarrow> world" where
  "onopenReconnect rec ws w =
     (let w1 = w\<lparr>reconnectAttemptsRef := 0\<rparr>
      in case reconnectFrame (recordingParamsRef w1) of
           None \<Rightarrow> w1
         | Some frame \<Rightarrow> setupWebSocketHandlers rec ws (wsSend ws frame w1))"

text \<open>
  The callback given to \<^verbatim>\<open>setTimeout\<close>.  \<open>throws\<close> says whether
  \<^verbatim>\<open>new WebSocket\<close> throws inside the \<^verbatim>\<open>try\<close>.
\<close>

definition reconnectTimerFired :: "bool \<Rightarrow> bool \<Rightarrow> world \<Rightarrow> world" where
  "reconnectTimerFired rec throws w =
     (if \<not> rec then w
      else if throws then (if rec then reconnectWebSocket rec w else w)
      else
        let ws = length (sockets w);
            w1 = (newWebSocket (ws_url (sessionIdRef w)) w)\<lparr>wsRef := Some ws\<rparr>
        in updSocket ws (\<lambda>s. s\<lparr>onopen := Some (OpenReconnect rec), onerror := Some rec,
                                onclose := Some (CloseReconnect rec)\<rparr>) w1)"

section \<open>The message router: \<^verbatim>\<open>ws.onmessage\<close>\<close>

text \<open>
  The argument is \<^verbatim>\<open>JSON.parse(event.data)\<close>.  (When the parse throws, or when
  \<^verbatim>\<open>data\<close> is \<^verbatim>\<open>null\<close> and reading \<^verbatim>\<open>data.type\<close> throws, the handler ends before
  any effect.)
\<close>

definition onmessageHandler :: "jsval \<Rightarrow> world \<Rightarrow> world" where
  "onmessageHandler data w =
     (case getProp data ''type'' of
        None \<Rightarrow> w
      | Some ty \<Rightarrow>
          if ty = JStr ''pong'' then w
          else if ty = JStr ''started'' then w
          else if ty = JStr ''reconnected'' then
            setState (\<lambda>prev. prev\<lparr>text' := js_or (propOf data ''text'') (JStr []),
                                  translatedText := js_or (propOf data ''translated_text'') (JStr [])\<rparr>) w
          else if ty = JStr ''text'' then
            (let fullText = js_or (propOf data ''text'') (JStr [])
             in if truthy fullText then setState (\<lambda>prev. prev\<lparr>text' := fullText\<rparr>) w else w)
          else if ty = JStr ''translated_text'' then
            (let translated = js_or (propOf data ''translated_text'') (JStr [])
             in if truthy translated then setState (\<lambda>prev. prev\<lparr>translatedText := translated\<rparr>) w
                else w)
          else if ty = JStr ''complete'' then
            (if truthy (propOf data ''text'')
             then setState (\<lambda>prev. prev\<lparr>text' := propOf data ''text'', isRecording := False,
                                        error := JNull\<rparr>) w
             else setState (\<lambda>prev. prev\<lparr>isRecording := False, error := JNull\<rparr>) w)
          else if ty = JStr ''stopped'' then
            (let w1 = setState (\<lambda>prev. prev\<lparr>isRecording := False, error := JNull\<rparr>) w
             in clearRef (pingIntervalRef w1) w1)
          else if ty = JStr ''cleared'' then
            setState (\<lambda>prev. prev\<lparr>text' := JStr [], translatedText := JStr []\<rparr>) w
          else if ty = JStr ''error'' then
            setState (\<lambda>prev. prev\<lparr>isRecording := False, error := propOf data ''message''\<rparr>) w
          else w)"

section \<open>The session controller\<close>

text \<open>
  The settings a click on Start finds in the component's \<^verbatim>\<open>useState\<close> cells, and
  \<^verbatim>\<open>Date.now()\<close> written in decimal for the template literal
  \<^verbatim>\<open>`session_${Date.now()}`\<close>.
\<close>

record settings =
  recognitionMethod :: string    \<comment> \<open>the cell \<^verbatim>\<open>method\<close>\<close>
  recognizerType :: string
  source :: string
  language :: string
  chunkDuration :: jsnum
  enableTranslation :: bool
  targetLanguage :: string

function decimal :: "nat \<Rightarrow> string" where
  "decimal n = (if n < 10 then [''0123456789'' ! n]
                else decimal (n div 10) @ [''0123456789'' ! (n mod 10)])"
  by pat_completeness auto
termination
  by (relation "measure id") auto

definition paramsSnapshot :: "settings \<Rightarrow> jsval" where
  "paramsSnapshot st =
     JObj [(''method'', JStr (recognitionMethod st)),
           (''recognizer_type'',
              if recognitionMethod st = ''system_recognizer'' then JStr (recognizerType st) else JUndefined),
           (''source'', JStr (source st)),
           (''language'', JStr (language st)),
           (''chunk_duration'', JNum (chunkDuration st)),
           (''enable_translation'', JBool (enableTranslation st)),
           (''target_language'', JStr (targetLanguage st))]"

text \<open>\<^verbatim>\<open>ws.onopen\<close> of \<^verbatim>\<open>startRecording\<close>: the ref is read when the socket opens.\<close>

definition onopenStart :: "nat \<Rightarrow> world \<Rightarrow> world" where
  "onopenStart ws w = wsSend ws (recordingParamsRef w) w"

text \<open>
  \<open>throws\<close> says whether \<^verbatim>\<open>new WebSocket\<close> throws; nothing catches it, so the rest
  of the function is skipped.
\<close>

definition startRecording :: "bool \<Rightarrow> settings \<Rightarrow> nat \<Rightarrow> bool \<Rightarrow> world \<Rightarrow> world" where
  "startRecording rec st now throws w =
     (let sid = ''session_'' @ decimal now;
          w1 = w\<lparr>sessionIdRef := Some sid, reconnectAttemptsRef := 0,
                 recordingParamsRef := paramsSnapshot st\<rparr>;
          w2 = setState (\<lambda>_. \<lparr>isRecording = True, text' = JStr [], translatedText = JStr [],
                               error = JNull, sessionId = Some sid\<rparr>) w1
      in if throws then w2
         else
           let ws = length (sockets w2);
               w3 = (newWebSocket (ws_url (Some sid)) w2)\<lparr>wsRef := Some ws\<rparr>;
               w4 = updSocket ws (\<lambda>s. s\<lparr>onopen := Some OpenStart\<rparr>) w3
           in setupWebSocketHandlers rec ws w4)"

text \<open>
  \<open>throws\<close> says whether \<^verbatim>\<open>wsRef.current.send\<close> throws (it does on a socket that
  is still connecting); nothing catches it, so the statements after it are skipped and
  the function does not complete.
\<close>

datatype outcome = Completed | Threw

definition stopRecording :: "bool \<Rightarrow> world \<Rightarrow> outcome \<times> world" where
  "stopRecording throws w =
     (let w1 = (clearRef (reconnectTimeoutRef w) w)\<lparr>reconnectTimeoutRef := None\<rparr>;
          w2 = (clearRef (pingIntervalRef w1) w1)\<lparr>pingIntervalRef := None\<rparr>;
          w3 = (clearRef (statusPollIntervalRef w2) w2)\<lparr>statusPollIntervalRef := None\<rparr>;
          finish = (\<lambda>v. setState (\<lambda>prev. prev\<lparr>isRecording := False\<rparr>)
                           (v\<lparr>sessionIdRef := None, recordingParamsRef := JNull\<rparr>))
      in case wsRef w3 of
           None \<Rightarrow> (Completed, finish w3)
         | Some ws \<Rightarrow>
             if throws then (Threw, w3)
             else (Completed, finish ((wsClose ws (wsSend ws stopFrame w3))\<lparr>wsRef := None\<rparr>)))"

text \<open>The \<^verbatim>\<open>onClick\<close> of the clear button, after the clipboard copy.\<close>

definition clearClicked :: "world \<Rightarrow> world" where
  "clearClicked w =
     (let w1 = setState (\<lambda>prev. prev\<lparr>text' := JStr [], translatedText := JStr []\<rparr>) w
      in case wsRef w1 of
           None \<Rightarrow> w1
         | Some ws \<Rightarrow> if wsIs OPEN ws w1 then wsSend ws clearFrame w1 else w1)"

section \<open>The effect: visibility monitor, safety sweep and status poller\<close>

text \<open>\<^verbatim>\<open>!wsRef.current || wsRef.current.readyState !== WebSocket.OPEN\<close>.\<close>

definition wsRefNotOpen :: "world \<Rightarrow> bool" where
  "wsRefNotOpen w = (case wsRef w of None \<Rightarrow> True | Some ws \<Rightarrow> \<not> wsIs OPEN ws w)"

text \<open>\<open>hidden\<close> is \<^verbatim>\<open>document.hidden\<close>.\<close>

definition handleVisibilityChange :: "bool \<Rightarrow> bool \<Rightarrow> world \<Rightarrow> world" where
  "handleVisibilityChange rec hidden w =
     (if hidden then w
      else if rec then
        (if wsRefNotOpen w then reconnectWebSocket rec (w\<lparr>reconnectAttemptsRef := 0\<rparr>) else w)
      else w)"

text \<open>The callback of \<^verbatim>\<open>connectionCheckInterval\<close> (3000 ms).\<close>

definition connectionCheckFired :: "bool \<Rightarrow> world \<Rightarrow> world" where
  "connectionCheckFired rec w = (if rec \<and> wsRefNotOpen w then reconnectWebSocket rec w else w)"

text \<open>
  \<^verbatim>\<open>pollSessionStatus\<close>.  What \<^verbatim>\<open>fetch\<close> and \<^verbatim>\<open>response.json()\<close> deliver is the
  environment's answer: the fetch rejects, or it resolves with \<^verbatim>\<open>response.ok\<close> and a
  body that parses (\<open>Some\<close>) or does not.  \<open>pollRequested\<close> is the guard before the
  fetch, \<open>pollResponse\<close> is the code after the \<^verbatim>\<open>await\<close>, which runs on the state of
  that later moment, and \<open>pollSessionStatus\<close> is one whole call when nothing else runs
  in between.
\<close>

datatype poll_result = FetchFailed | Response bool "jsval option"

definition pollRequested :: "bool \<Rightarrow> world \<Rightarrow> bool" where
  "pollRequested rec w = (\<not> (\<not> rec \<or> falsyStr (sessionIdRef w)))"

definition pollResponse :: "poll_result \<Rightarrow> world \<Rightarrow> world" where
  "pollResponse r w =
     (case r of
        FetchFailed \<Rightarrow> w
      | Response ok body \<Rightarrow>
          if \<not> ok then w
          else
            (case body of
               None \<Rightarrow> w
             | Some data \<Rightarrow>
                 (case getProp data ''is_recording'' of
                    None \<Rightarrow> w
                  | Some flag \<Rightarrow>
                      if truthy flag then
                        setState (\<lambda>prev. prev\<lparr>text' := js_or (propOf data ''text'') (text' prev),
                                              translatedText := js_or (propOf data ''translated_text'')
                                                                      (translatedText prev)\<rparr>) w
                      else setState (\<lambda>prev. prev\<lparr>isRecording := False\<rparr>) w)))"

definition pollSessionStatus :: "bool \<Rightarrow> poll_result \<Rightarrow> world \<Rightarrow> world" where
  "pollSessionStatus rec r w = (if pollRequested rec w then pollResponse r w else w)"

text \<open>
  The body of the effect with dependency \<^verbatim>\<open>[state.isRecording]\<close>, its cleanup, and what
  React does with them after a render: the first time the body runs; later, when the
  dependency differs from the one of the mounted effect, the old cleanup runs and then the
  body of the new render.
\<close>

definition effectSetup :: "bool \<Rightarrow> world \<Rightarrow> world" where
  "effectSetup rec w =
     (let w1 = setTimer 3000 True (ConnCheckCb rec) w;
          w2 = (setTimer 1000 True (PollCb rec) w1)\<lparr>statusPollIntervalRef := Some (nextTimer w1)\<rparr>
      in w2\<lparr>effect := Some (rec, nextTimer w)\<rparr>)"

definition effectCleanup :: "nat \<Rightarrow> world \<Rightarrow> world" where
  "effectCleanup h w = (let w1 = clearTimer h w in clearRef (statusPollIntervalRef w1) w1)"

definition render :: "world \<Rightarrow> world" where
  "render w =
     (case effect w of
        None \<Rightarrow> effectSetup (isRecording (state w)) w
      | Some (r, h) \<Rightarrow>
          if r = isRecording (state w) then w
          else effectSetup (isRecording (state w)) (effectCleanup h w))"

section \<open>The event loop\<close>

text \<open>
  Everything the component does is the reaction to one event of the single event loop:
  a render, a click, a visibility change, a timer that fires, the answer to a status
  request, or an event of a WebSocket.  The flags of \<open>Start\<close>, \<open>Stop\<close> and \<open>Fire\<close> are
  the \<open>throws\<close> arguments above; the first flag of \<open>Start\<close> is the
  \<^verbatim>\<open>state.isRecording\<close> of the render whose \<^verbatim>\<open>startRecording\<close> the click runs
  (false in the browser, where the button is disabled while recording).
  \<open>SocketClosing\<close> is the start of a closing handshake by the server, \<open>SocketClose\<close>
  the close event with its code.  A timer fires only while it is pending, and a timeout
  is removed when it fires; a socket opens only while it is connecting and closes once.
  The loop admits more than a browser does where that is harmless for what is proved of
  every event sequence: a status answer and a message may arrive at any time.  Unmounting
  the component is not part of the loop.
\<close>

datatype event =
    Render
  | Start bool settings nat bool
  | Stop bool
  | Clear
  | Visibility bool
  | Fire nat bool
  | PollAnswer poll_result
  | SocketOpen nat
  | SocketMessage nat jsval
  | SocketError nat
  | SocketClosing nat
  | SocketClose nat nat

definition runCallback :: "timer_cb \<Rightarrow> bool \<Rightarrow> world \<Rightarrow> world" where
  "runCallback c throws w =
     (case c of
        ReconnectCb rec \<Rightarrow> reconnectTimerFired rec throws w
      | PingCb rec ws \<Rightarrow> pingFired rec ws throws w
      | CloseDelayCb rec \<Rightarrow> closeDelayFired rec w
      | ConnCheckCb rec \<Rightarrow> connectionCheckFired rec w
      | PollCb rec \<Rightarrow> w)"

definition fire :: "nat \<Rightarrow> bool \<Rightarrow> world \<Rightarrow> world" where
  "fire h throws w =
     (case find (\<lambda>t. handle t = h) (timers w) of
        None \<Rightarrow> w
      | Some t \<Rightarrow> runCallback (callback t) throws (if repeats t then w else clearTimer h w))"

definition socketOpen :: "nat \<Rightarrow> world \<Rightarrow> world" where
  "socketOpen i w =
     (if wsIs CONNECTING i w then
        (let w1 = updSocket i (\<lambda>s. s\<lparr>readyState := OPEN\<rparr>) w
         in case onopen (sockets w ! i) of
              None \<Rightarrow> w1
            | Some OpenStart \<Rightarrow> onopenStart i w1
            | Some (OpenReconnect rec) \<Rightarrow> onopenReconnect rec i w1)
      else w)"

definition socketClose :: "nat \<Rightarrow> nat \<Rightarrow> world \<Rightarrow> world" where
  "socketClose i code w =
     (if i < length (sockets w) \<and> \<not> wsIs CLOSED i w then
        (let w1 = updSocket i (\<lambda>s. s\<lparr>readyState := CLOSED\<rparr>) w
         in case onclose (sockets w ! i) of
              None \<Rightarrow> w1
            | Some h \<Rightarrow> oncloseHandler h code w1)
      else w)"

fun step :: "event \<Rightarrow> world \<Rightarrow> world" where
  "step Render w = render w"
| "step (Start rec st now throws) w = startRecording rec st now throws w"
| "step (Stop throws) w = snd (stopRecording throws w)"
| "step Clear w = clearClicked w"
| "step (Visibility hidden) w =
     (case effect w of None \<Rightarrow> w | Some (r, h) \<Rightarrow> handleVisibilityChange r hidden w)"
| "step (Fire h throws) w = fire h throws w"
| "step (PollAnswer r) w = pollResponse r w"
| "step (SocketOpen i) w = socketOpen i w"
| "step (SocketMessage i data) w =
     (if i < length (sockets w) \<and> onmessage (sockets w ! i) then onmessageHandler data w else w)"
| "step (SocketError i) w =
     (if i < length (sockets w) then
        (case onerror (sockets w ! i) of None \<Rightarrow> w | Some rec \<Rightarrow> onerrorHandler rec w)
      else w)"
| "step (SocketClosing i) w = wsClose i w"
| "step (SocketClose i code) w = socketClose i code w"

fun run :: "event list \<Rightarrow> world \<Rightarrow> world" where
  "run [] w = w"
| "run (e # es) w = run es (step e w)"

section \<open>A sample session\<close>

text \<open>
  The settings the component starts with (\<^verbatim>\<open>getDefaultRecognizerType\<close> falls back to
  \<^verbatim>\<open>google\<close>), and the world after mounting, a click on Start and the render that
  follows it.
\<close>

definition defaultSettings :: settings where
  "defaultSettings = \<lparr>recognitionMethod = ''system_recognizer'', recognizerType = ''google'',
     source = ''microphone'', language = ''ru'', chunkDuration = Finite (1 / 5),
     enableTranslation = False, targetLanguage = ''en''\<rparr>"

definition sampleWorld :: world where
  "sampleWorld = run [Render, Start False defaultSettings 17 False, Render] initialWorld"

text \<open>
  Frames as the server sends them, and the sample session once its first socket has
  opened and a partial-text frame with the text \<^verbatim>\<open>abc\<close> has arrived.
\<close>

definition textFrame :: "jsval \<Rightarrow> jsval" where
  "textFrame v = JObj [(''type'', JStr ''text''), (''text'', v)]"

definition reconnectedFrame :: "jsval \<Rightarrow> jsval \<Rightarrow> jsval" where
  "reconnectedFrame v t = JObj [(''type'', JStr ''reconnected''), (''text'', v), (''translated_text'', t)]"

definition stoppedFrame :: jsval where
  "stoppedFrame = JObj [(''type'', JStr ''stopped'')]"

definition abcWorld :: world where
  "abcWorld = run [SocketOpen 0, SocketMessage 0 (textFrame (JStr ''abc''))] sampleWorld"

text \<open>The same session after its socket has closed abnormally.\<close>

definition closedWorld :: world where
  "closedWorld = run [SocketClose 0 1006] abcWorld"


text \<open>
  The sample session with both its first socket and a reconnect socket still connecting.
\<close>

definition twoSockets :: world where
  "twoSockets = run [Fire 4 False, Fire 6 False] sampleWorld"

text \<open>
  The sample session after a reconnect: the sweep schedules it (timer 6), the timer fires
  and creates the second socket, and that socket opens, so its handlers are closures of
  the render in which \<^verbatim>\<open>state.isRecording\<close> was true.  In \<open>inactiveWorld\<close> the
  server then reports a failure (an \<^verbatim>\<open>error\<close> frame), which marks recording inactive,
  and the component renders.  In \<open>deferredBeforeStop\<close> the second socket closes
  instead, which leaves the 500 ms timer of its \<^verbatim>\<open>onclose\<close> pending (timer 8), and
  \<open>deferredAfterStop\<close> is that world after a click on Stop.
\<close>

definition errorFrame :: "jsval \<Rightarrow> jsval" where
  "errorFrame m = JObj [(''type'', JStr ''error''), (''message'', m)]"

definition inactiveWorld :: world where
  "inactiveWorld =
     run [Fire 4 False, Fire 6 False, SocketOpen 1, SocketMessage 1 (errorFrame (JStr ''failed'')),
          Render] sampleWorld"

definition deferredBeforeStop :: world where
  "deferredBeforeStop =
     run [Fire 4 False, Fire 6 False, SocketOpen 1, SocketClose 1 1006] sampleWorld"

definition deferredAfterStop :: world where
  "deferredAfterStop = snd (stopRecording False deferredBeforeStop)"

section \<open>Predicates on worlds and events\<close>

text \<open>
  Two kinds of pending timer lead to a reconnect.  \<open>reconnectTimeouts\<close> are the
  timeouts set by \<^verbatim>\<open>reconnectWebSocket\<close> itself, whose callback creates the socket;
  their handle is stored in \<^verbatim>\<open>reconnectTimeoutRef\<close>.  \<open>closeDelayTimeouts\<close> are the
  500 ms timeouts set by \<^verbatim>\<open>ws.onclose\<close>, whose callback calls
  \<^verbatim>\<open>reconnectWebSocket\<close> later; their handle is stored nowhere and nothing cancels
  them.  \<open>reconnectTracked\<close> is the invariant of the first kind: every such timeout is
  the one the ref holds, its callback captured the flag true, and there is at most one.
  \<open>quiet\<close> describes the time after a stop: no session id, and no timeout of the first
  kind.
\<close>

fun isReconnectCb :: "timer_cb \<Rightarrow> bool" where
  "isReconnectCb (ReconnectCb r) = True"
| "isReconnectCb c = False"

fun isCloseDelayCb :: "timer_cb \<Rightarrow> bool" where
  "isCloseDelayCb (CloseDelayCb r) = True"
| "isCloseDelayCb c = False"

definition reconnectTimeouts :: "world \<Rightarrow> timer list" where
  "reconnectTimeouts w = filter (\<lambda>t. isReconnectCb (callback t)) (timers w)"

definition closeDelayTimeouts :: "world \<Rightarrow> timer list" where
  "closeDelayTimeouts w = filter (\<lambda>t. isCloseDelayCb (callback t)) (timers w)"

definition reconnectTracked :: "world \<Rightarrow> bool" where
  "reconnectTracked w =
     ((\<forall>t\<in>set (reconnectTimeouts w).
          reconnectTimeoutRef w = Some (handle t) \<and> callback t = ReconnectCb True)
      \<and> length (reconnectTimeouts w) \<le> 1)"

definition quiet :: "world \<Rightarrow> bool" where
  "quiet w = (sessionIdRef w = None \<and> reconnectTimeouts w = [])"

text \<open>
  Events that start a session with a given id, events that start a session at all,
  events at which a session begins or ends, and the shape of every session id the
  component creates.
\<close>

fun startsSession :: "string \<Rightarrow> event \<Rightarrow> bool" where
  "startsSession sid (Start rec st now throws) = (''session_'' @ decimal now = sid)"
| "startsSession sid e = False"

fun isStart :: "event \<Rightarrow> bool" where
  "isStart (Start rec st now throws) = True"
| "isStart e = False"

fun sessionBoundary :: "event \<Rightarrow> bool" where
  "sessionBoundary (Start rec st now throws) = True"
| "sessionBoundary (Stop throws) = True"
| "sessionBoundary e = False"

definition sessionIdOk :: "world \<Rightarrow> bool" where
  "sessionIdOk w = (case sessionIdRef w of None \<Rightarrow> True | Some s \<Rightarrow> take 8 s = ''session_'')"

text \<open>
  The urls of the sockets created so far, in the order of creation, and the invariant of
  the time after a stop: the session id is not the current one, and no socket from
  position \<open>n\<close> on is addressed to it.
\<close>

definition urls :: "world \<Rightarrow> string list" where
  "urls w = map url (sockets w)"

definition noTransport :: "string \<Rightarrow> nat \<Rightarrow> world \<Rightarrow> bool" where
  "noTransport sid n w =
     (sessionIdRef w \<noteq> Some sid \<and> n \<le> length (sockets w)
      \<and> (\<forall>u\<in>set (drop n (urls w)). u \<noteq> ws_url (Some sid)))"

text \<open>A socket that is still connecting has sent nothing and has its \<^verbatim>\<open>onopen\<close>.\<close>

definition freshSocket :: "socket \<Rightarrow> bool" where
  "freshSocket s = (readyState s = CONNECTING \<longrightarrow> sent s = [] \<and> onopen s \<noteq> None)"

definition freshSockets :: "world \<Rightarrow> bool" where
  "freshSockets w = (\<forall>s\<in>set (sockets w). freshSocket s)"

section \<open>Evaluation\<close>

declare decimal.simps [simp del]

lemmas op_defs = setState_def setTimer_def clearTimer_def clearRef_def updSocket_def
  newWebSocket_def wsSend_def wsClose_def wsIs_def ws_url_def falsyStr_def

lemmas handler_defs = reconnectWebSocket_def setupWebSocketHandlers_def pingFired_def
  onerrorHandler_def oncloseHandler_def closeDelayFired_def onopenReconnect_def
  reconnectTimerFired_def onmessageHandler_def onopenStart_def startRecording_def
  stopRecording_def clearClicked_def wsRefNotOpen_def handleVisibilityChange_def
  connectionCheckFired_def pollResponse_def effectSetup_def effectCleanup_def render_def
  runCallback_def fire_def socketOpen_def socketClose_def

lemma decimal_17: "decimal 17 = ''17''"
  by (simp add: decimal.simps)

lemma sampleWorld_eq:
  "sampleWorld =
     \<lparr>state = \<lparr>isRecording = True, text' = JStr [], translatedText = JStr [],
                error = JNull, sessionId = Some ''session_17''\<rparr>,
      wsRef = Some 0, reconnectTimeoutRef = None, reconnectAttemptsRef = 0,
      pingIntervalRef = Some 3, sessionIdRef = Some ''session_17'',
      recordingParamsRef = paramsSnapshot defaultSettings,
      statusPollIntervalRef = Some 5, effect = Some (True, 4),
      timers = [\<lparr>handle = 3, delay = 10000, repeats = True, callback = PingCb False 0\<rparr>,
                \<lparr>handle = 4, delay = 3000, repeats = True, callback = ConnCheckCb True\<rparr>,
                \<lparr>handle = 5, delay = 1000, repeats = True, callback = PollCb True\<rparr>],
      nextTimer = 6,
      sockets = [\<lparr>url = ''ws://localhost:8000/ws/transcribe/session_17'',
                  readyState = CONNECTING, onopen = Some OpenStart, onmessage = True,
                  onerror = Some False, onclose = Some (CloseSetup False), sent = []\<rparr>]\<rparr>"
  by (simp add: sampleWorld_def initialWorld_def initialState_def handler_defs op_defs Let_def
      decimal_17)

lemma truthy_paramsSnapshot [simp]: "truthy (paramsSnapshot st)"
  by (simp add: paramsSnapshot_def)

lemma reconnectFrame_paramsSnapshot: "reconnectFrame (paramsSnapshot st) = Some (paramsSnapshot st)"
  by (simp add: reconnectFrame_def getProp_def nullish_def paramsSnapshot_def)

section \<open>The backoff schedule\<close>

lemma reconnectDelay_cap: "5 \<le> j \<Longrightarrow> reconnectDelay j = 10000"
proof -
  assume j: "5 \<le> j"
  then have "(2::nat) ^ 4 \<le> 2 ^ (j - 1)"
    by (intro power_increasing) auto
  with j show ?thesis
    by (simp add: reconnectDelay_def)
qed

lemma reconnectDelay_first: "map reconnectDelay [0, 1, 2, 3, 4, 5] = [100, 1000, 2000, 4000, 8000, 10000]"
  by (simp add: reconnectDelay_def)

lemma reconnectWebSocket_schedules:
  assumes "rec" and "\<not> falsyStr (sessionIdRef w)" and "truthy (recordingParamsRef w)"
  shows "timers (reconnectWebSocket rec w) =
           filter (\<lambda>t. Some (handle t) \<noteq> reconnectTimeoutRef w) (timers w) @
           [\<lparr>handle = nextTimer w, delay = reconnectDelay (reconnectAttemptsRef w),
             repeats = False, callback = ReconnectCb rec\<rparr>]"
    and "reconnectAttemptsRef (reconnectWebSocket rec w) = Suc (reconnectAttemptsRef w)"
    and "reconnectTimeoutRef (reconnectWebSocket rec w) = Some (nextTimer w)"
  using assms
  by (auto simp: reconnectWebSocket_def Let_def clearRef_def clearTimer_def setTimer_def
      split: option.splits)

text \<open>
  Claim C1.  When \<^verbatim>\<open>reconnectWebSocket\<close> passes its guard with the attempt counter at
  \<open>k\<close>, the timer it schedules has the delay 100 ms for \<open>k = 0\<close> and
  \<open>min (1000 * 2 ^ (k - 1)) 10000\<close> ms for \<open>k \<ge> 1\<close>, computed from the counter before
  the increment, and the counter is \<open>k + 1\<close> afterwards.  For the counters 0 to 5 the
  delays are 100, 1000, 2000, 4000, 8000 and 10000 ms, and from 5 on the delay stays
  10000 ms.
\<close>

theorem c1_backoff_schedule:
  assumes "rec" and "\<not> falsyStr (sessionIdRef w)" and "truthy (recordingParamsRef w)"
    and "reconnectAttemptsRef w = k"
  shows "last (timers (reconnectWebSocket rec w)) =
           \<lparr>handle = nextTimer w,
            delay = (if k = 0 then 100 else min (1000 * 2 ^ (k - 1)) 10000),
            repeats = False, callback = ReconnectCb rec\<rparr>
         \<and> reconnectAttemptsRef (reconnectWebSocket rec w) = k + 1
         \<and> map reconnectDelay [0, 1, 2, 3, 4, 5] = [100, 1000, 2000, 4000, 8000, 10000]
         \<and> (\<forall>j\<ge>5. reconnectDelay j = 10000)"
  using reconnectWebSocket_schedules [OF assms(1-3)] assms(4) reconnectDelay_first
    reconnectDelay_cap
  by (simp add: reconnectDelay_def)

theorem c1_backoff_schedule_witness:
  "last (timers (reconnectWebSocket True sampleWorld)) =
     \<lparr>handle = 6, delay = 100, repeats = False, callback = ReconnectCb True\<rparr>
   \<and> reconnectAttemptsRef (reconnectWebSocket True sampleWorld) = 1"
  using c1_backoff_schedule [of True sampleWorld 0]
  by (simp add: sampleWorld_eq falsyStr_def)

section \<open>Snapshot frames\<close>

lemma abcWorld_eq:
  "abcWorld =
     sampleWorld\<lparr>state := (state sampleWorld)\<lparr>text' := JStr ''abc''\<rparr>,
                 sockets := [\<lparr>url = ''ws://localhost:8000/ws/transcribe/session_17'',
                             readyState = OPEN, onopen = Some OpenStart, onmessage = True,
                             onerror = Some False, onclose = Some (CloseSetup False),
                             sent = [paramsSnapshot defaultSettings]\<rparr>]\<rparr>"
  by (simp add: abcWorld_def sampleWorld_eq handler_defs op_defs textFrame_def getProp_def
      nullish_def js_or_def Let_def)

lemma onmessage_text:
  assumes "getProp data ''type'' = Some (JStr ''text'')"
  shows "onmessageHandler data w =
           (if truthy (propOf data ''text'')
            then w\<lparr>state := (state w)\<lparr>text' := propOf data ''text''\<rparr>\<rparr> else w)"
  using assms by (simp add: onmessageHandler_def js_or_def setState_def Let_def)

lemma onmessage_reconnected:
  assumes "getProp data ''type'' = Some (JStr ''reconnected'')"
  shows "onmessageHandler data w =
           w\<lparr>state := (state w)\<lparr>text' := js_or (propOf data ''text'') (JStr []),
                 translatedText := js_or (propOf data ''translated_text'') (JStr [])\<rparr>\<rparr>"
  using assms by (simp add: onmessageHandler_def setState_def)

lemma js_or_JStr: "js_or (JStr s) (JStr []) = JStr s"
  by (simp add: js_or_def)

lemma pollResponse_state: "pollResponse r w = w\<lparr>state := state (pollResponse r w)\<rparr>"
  by (simp add: pollResponse_def setState_def split: poll_result.splits option.splits)

text \<open>
  Claim C4, as stated, says that a partial-text frame replaces the accumulated text with
  the frame's snapshot value, for every snapshot value.  It does not for the empty
  snapshot: with the text \<^verbatim>\<open>abc\<close> accumulated, a frame carrying the empty string leaves
  \<^verbatim>\<open>abc\<close> in place (the handler guards the update with \<^verbatim>\<open>if (fullText)\<close>).
\<close>

theorem c4_empty_snapshot_counterexample:
  "text' (state (step (SocketMessage 0 (textFrame (JStr []))) abcWorld)) = JStr ''abc''
   \<and> text' (state (step (SocketMessage 0 (textFrame (JStr []))) abcWorld))
       \<noteq> propOf (textFrame (JStr [])) ''text''"
  by (simp add: abcWorld_eq sampleWorld_eq textFrame_def onmessageHandler_def getProp_def
      nullish_def js_or_def Let_def)

text \<open>
  Claim C4, amended.  A partial-text frame whose text value is truthy (a non-empty string)
  replaces the whole accumulated text with that value and changes nothing else; a frame
  whose text value is empty or absent changes nothing.  Applying a frame is idempotent:
  applying the same frame twice yields the same world as applying it once, and applying a
  frame whose value equals the current text leaves the world unchanged.
\<close>

theorem c4_text_frame_idempotent:
  assumes "getProp data ''type'' = Some (JStr ''text'')"
  shows "(truthy (propOf data ''text'') \<longrightarrow>
            onmessageHandler data w = w\<lparr>state := (state w)\<lparr>text' := propOf data ''text''\<rparr>\<rparr>)
       \<and> (\<not> truthy (propOf data ''text'') \<longrightarrow> onmessageHandler data w = w)
       \<and> onmessageHandler data (onmessageHandler data w) = onmessageHandler data w
       \<and> (text' (state w) = propOf data ''text'' \<longrightarrow> onmessageHandler data w = w)"
  by (simp add: onmessage_text [OF assms])

theorem c4_text_frame_idempotent_witness:
  "onmessageHandler (textFrame (JStr ''abc'')) sampleWorld =
     sampleWorld\<lparr>state := (state sampleWorld)\<lparr>text' := JStr ''abc''\<rparr>\<rparr>
   \<and> onmessageHandler (textFrame (JStr ''abc'')) (onmessageHandler (textFrame (JStr ''abc'')) sampleWorld)
       = onmessageHandler (textFrame (JStr ''abc'')) sampleWorld"
proof -
  have ty: "getProp (textFrame (JStr ''abc'')) ''type'' = Some (JStr ''text'')"
    by (simp add: textFrame_def getProp_def nullish_def)
  have v: "propOf (textFrame (JStr ''abc'')) ''text'' = JStr ''abc''"
    by (simp add: textFrame_def)
  have "truthy (JStr ''abc'')"
    by simp
  with c4_text_frame_idempotent [OF ty, of sampleWorld, unfolded v] show ?thesis
    by blast
qed

text \<open>
  Claim C5.  A session-resumed frame (\<^verbatim>\<open>reconnected\<close>) replaces the local text and the
  local translated text with the values the server provides, whatever the local values
  were: for string values the two fields become exactly those strings and nothing else
  changes (in general a field becomes the provided value if it is truthy and the empty
  string otherwise).  In particular the clear button empties the local text, and a
  session-resumed frame that arrives afterwards makes the local text equal to the
  server's text.
\<close>

theorem c5_reconnected_replaces:
  assumes "getProp data ''type'' = Some (JStr ''reconnected'')"
  shows "(\<forall>s t. propOf data ''text'' = JStr s \<and> propOf data ''translated_text'' = JStr t \<longrightarrow>
            onmessageHandler data w =
              w\<lparr>state := (state w)\<lparr>text' := JStr s, translatedText := JStr t\<rparr>\<rparr>)
       \<and> text' (state (onmessageHandler data w)) = js_or (propOf data ''text'') (JStr [])
       \<and> translatedText (state (onmessageHandler data w)) =
           js_or (propOf data ''translated_text'') (JStr [])
       \<and> text' (state (clearClicked w)) = JStr []
       \<and> (\<forall>s. propOf data ''text'' = JStr s \<longrightarrow>
            text' (state (onmessageHandler data (clearClicked w))) = JStr s)"
  by (auto simp: onmessage_reconnected [OF assms] js_or_JStr clearClicked_def setState_def
      Let_def wsSend_def updSocket_def split: option.splits)

lemma closedWorld_eq:
  "closedWorld =
     abcWorld\<lparr>sockets := [\<lparr>url = ''ws://localhost:8000/ws/transcribe/session_17'',
                             readyState = CLOSED, onopen = Some OpenStart, onmessage = True,
                             onerror = Some False, onclose = Some (CloseSetup False),
                             sent = [paramsSnapshot defaultSettings]\<rparr>]\<rparr>"
  by (simp add: closedWorld_def abcWorld_eq sampleWorld_eq socketClose_def oncloseHandler_def
      op_defs Let_def)

theorem c5_reconnected_replaces_witness:
  "text' (state closedWorld) = JStr ''abc''
   \<and> wsRefNotOpen closedWorld
   \<and> text' (state (clearClicked closedWorld)) = JStr []
   \<and> text' (state (onmessageHandler (reconnectedFrame (JStr ''old text'') (JStr []))
                      (clearClicked closedWorld))) = JStr ''old text''"
  using c5_reconnected_replaces [of "reconnectedFrame (JStr ''old text'') (JStr [])" closedWorld]
  by (simp add: reconnectedFrame_def getProp_def nullish_def closedWorld_eq abcWorld_eq
      sampleWorld_eq wsRefNotOpen_def wsIs_def)

section \<open>The status poller\<close>

text \<open>
  Claim C9.  A status-poll transport error changes nothing: when the fetch rejects, when
  the response is not ok, and when its body does not parse, the world after the poll is
  the world before it.  Whatever the answer, a poll changes at most the React state, so
  the timers, the sockets and every ref are as before: no path of the poller schedules a
  reconnect, creates a socket or closes one, and the interval callback itself changes
  nothing before the answer arrives.
\<close>

theorem c9_poll_errors_swallowed:
  "pollSessionStatus rec FetchFailed w = w
   \<and> pollSessionStatus rec (Response False body) w = w
   \<and> pollSessionStatus rec (Response True None) w = w
   \<and> pollSessionStatus rec r w = w\<lparr>state := state (pollSessionStatus rec r w)\<rparr>
   \<and> pollResponse r w = w\<lparr>state := state (pollResponse r w)\<rparr>
   \<and> timers (pollSessionStatus rec r w) = timers w
   \<and> sockets (pollSessionStatus rec r w) = sockets w
   \<and> runCallback (PollCb rec) throws w = w"
proof -
  have st: "pollSessionStatus rec r w = w\<lparr>state := state (pollSessionStatus rec r w)\<rparr>"
    using pollResponse_state [of r w] by (simp add: pollSessionStatus_def)
  have "timers (w\<lparr>state := state (pollSessionStatus rec r w)\<rparr>) = timers w"
    and "sockets (w\<lparr>state := state (pollSessionStatus rec r w)\<rparr>) = sockets w"
    by simp_all
  with st have "timers (pollSessionStatus rec r w) = timers w"
    and "sockets (pollSessionStatus rec r w) = sockets w"
    by simp_all
  moreover have "pollSessionStatus rec FetchFailed w = w"
    and "pollSessionStatus rec (Response False body) w = w"
    and "pollSessionStatus rec (Response True None) w = w"
    by (simp_all add: pollSessionStatus_def pollResponse_def)
  moreover have "runCallback (PollCb rec) throws w = w"
    by (simp add: runCallback_def)
  ultimately show ?thesis
    using st pollResponse_state [of r w] by blast
qed

theorem c9_poll_errors_swallowed_witness:
  "pollSessionStatus True FetchFailed abcWorld = abcWorld
   \<and> timers (pollSessionStatus True (Response True (Some (JObj [(''is_recording'', JBool False)])))
               abcWorld) = timers abcWorld
   \<and> pollRequested True abcWorld"
  using c9_poll_errors_swallowed
          [of True abcWorld None "Response True (Some (JObj [(''is_recording'', JBool False)]))" False]
  by (simp add: pollRequested_def falsyStr_def abcWorld_eq sampleWorld_eq)

section \<open>Snapshots that are empty\<close>

lemma onmessage_keeps_nonempty:
  assumes "getProp data ''type'' \<noteq> Some (JStr ''reconnected'')"
    and "getProp data ''type'' \<noteq> Some (JStr ''cleared'')"
  shows "text' (state w) \<noteq> JStr [] \<longrightarrow> text' (state (onmessageHandler data w)) \<noteq> JStr []"
    and "translatedText (state w) \<noteq> JStr [] \<longrightarrow>
           translatedText (state (onmessageHandler data w)) \<noteq> JStr []"
proof -
  have "text' (state (onmessageHandler data w)) = text' (state w)
        \<or> truthy (text' (state (onmessageHandler data w)))"
  proof (cases "getProp data ''type''")
    case None
    then show ?thesis by (simp add: onmessageHandler_def)
  next
    case (Some ty)
    with assms have "ty \<noteq> JStr ''reconnected''" and "ty \<noteq> JStr ''cleared''"
      by simp_all
    with Some show ?thesis
      by (simp add: onmessageHandler_def setState_def clearRef_def clearTimer_def js_or_def Let_def
          split: option.splits)
  qed
  then show "text' (state w) \<noteq> JStr [] \<longrightarrow> text' (state (onmessageHandler data w)) \<noteq> JStr []"
    by auto
  have "translatedText (state (onmessageHandler data w)) = translatedText (state w)
        \<or> truthy (translatedText (state (onmessageHandler data w)))"
  proof (cases "getProp data ''type''")
    case None
    then show ?thesis by (simp add: onmessageHandler_def)
  next
    case (Some ty)
    with assms have "ty \<noteq> JStr ''reconnected''" and "ty \<noteq> JStr ''cleared''"
      by simp_all
    with Some show ?thesis
      by (simp add: onmessageHandler_def setState_def clearRef_def clearTimer_def js_or_def Let_def
          split: option.splits)
  qed
  then show "translatedText (state w) \<noteq> JStr [] \<longrightarrow>
           translatedText (state (onmessageHandler data w)) \<noteq> JStr []"
    by auto
qed

text \<open>
  Claim C10, as stated, says that neither channel ever overwrites a non-empty local
  snapshot with an empty one.  On the push channel a session-resumed frame does: with the
  text \<^verbatim>\<open>abc\<close> accumulated, a \<^verbatim>\<open>reconnected\<close> frame whose text is empty turns the local
  text into the empty string (the handler assigns \<^verbatim>\<open>data.text || ""\<close>).
\<close>

theorem c10_reconnected_counterexample:
  "text' (state abcWorld) = JStr ''abc''
   \<and> text' (state (step (SocketMessage 0 (reconnectedFrame (JStr []) (JStr []))) abcWorld)) = JStr []"
  by (simp add: abcWorld_eq sampleWorld_eq reconnectedFrame_def onmessageHandler_def getProp_def
      nullish_def js_or_def setState_def)

text \<open>
  Claim C10, amended.  A partial-text frame whose text field is the empty string or absent
  leaves the world unchanged, and a successful status answer whose \<^verbatim>\<open>text\<close> or
  \<^verbatim>\<open>translated_text\<close> field is empty or absent leaves the corresponding local field at its
  previous value.  A status answer never replaces a non-empty local text or translation by
  the empty string, and on the push channel no frame does except the session-resumed
  frame (\<^verbatim>\<open>reconnected\<close>) and the \<^verbatim>\<open>cleared\<close> frame.
\<close>

theorem c10_empty_snapshot_ignored:
  assumes "getProp data ''type'' = Some (JStr ''text'')"
    and "getProp frame ''type'' \<noteq> Some (JStr ''reconnected'')"
    and "getProp frame ''type'' \<noteq> Some (JStr ''cleared'')"
  shows "(propOf data ''text'' = JStr [] \<or> propOf data ''text'' = JUndefined \<longrightarrow>
            onmessageHandler data w = w)
       \<and> (text' (state w) \<noteq> JStr [] \<longrightarrow> text' (state (onmessageHandler data w)) \<noteq> JStr [])
       \<and> translatedText (state (onmessageHandler data w)) = translatedText (state w)
       \<and> (propOf body ''text'' = JStr [] \<or> propOf body ''text'' = JUndefined \<longrightarrow>
            text' (state (pollResponse (Response True (Some body)) w)) = text' (state w))
       \<and> (propOf body ''translated_text'' = JStr [] \<or> propOf body ''translated_text'' = JUndefined \<longrightarrow>
            translatedText (state (pollResponse (Response True (Some body)) w)) =
              translatedText (state w))
       \<and> (text' (state w) \<noteq> JStr [] \<longrightarrow> text' (state (pollResponse r w)) \<noteq> JStr [])
       \<and> (translatedText (state w) \<noteq> JStr [] \<longrightarrow>
            translatedText (state (pollResponse r w)) \<noteq> JStr [])
       \<and> (text' (state w) \<noteq> JStr [] \<longrightarrow> text' (state (onmessageHandler frame w)) \<noteq> JStr [])
       \<and> (translatedText (state w) \<noteq> JStr [] \<longrightarrow>
            translatedText (state (onmessageHandler frame w)) \<noteq> JStr [])"
proof -
  have a: "(propOf data ''text'' = JStr [] \<or> propOf data ''text'' = JUndefined \<longrightarrow>
                  onmessageHandler data w = w)
       \<and> (text' (state w) \<noteq> JStr [] \<longrightarrow> text' (state (onmessageHandler data w)) \<noteq> JStr [])
       \<and> translatedText (state (onmessageHandler data w)) = translatedText (state w)"
    by (auto simp: onmessage_text [OF assms(1)])
  have b: "(propOf body ''text'' = JStr [] \<or> propOf body ''text'' = JUndefined \<longrightarrow>
            text' (state (pollResponse (Response True (Some body)) w)) = text' (state w))
       \<and> (propOf body ''translated_text'' = JStr [] \<or> propOf body ''translated_text'' = JUndefined \<longrightarrow>
            translatedText (state (pollResponse (Response True (Some body)) w)) =
              translatedText (state w))
       \<and> (text' (state w) \<noteq> JStr [] \<longrightarrow> text' (state (pollResponse r w)) \<noteq> JStr [])
       \<and> (translatedText (state w) \<noteq> JStr [] \<longrightarrow>
            translatedText (state (pollResponse r w)) \<noteq> JStr [])"
    by (auto simp: pollResponse_def setState_def js_or_def
        split: poll_result.splits option.splits)
  from a b onmessage_keeps_nonempty [OF assms(2,3), of w] show ?thesis
    by blast
qed

theorem c10_empty_snapshot_ignored_witness:
  "onmessageHandler (textFrame (JStr [])) abcWorld = abcWorld
   \<and> text' (state (pollResponse (Response True (Some (JObj [(''is_recording'', JBool True),
          (''text'', JStr [])]))) abcWorld)) = JStr ''abc''
   \<and> text' (state (onmessageHandler (JObj [(''type'', JStr ''complete''), (''text'', JStr [])])
          abcWorld)) \<noteq> JStr []"
  using c10_empty_snapshot_ignored
          [of "textFrame (JStr [])" "JObj [(''type'', JStr ''complete''), (''text'', JStr [])]"
              abcWorld "JObj [(''is_recording'', JBool True), (''text'', JStr [])]" FetchFailed]
  by (simp add: textFrame_def getProp_def nullish_def abcWorld_eq sampleWorld_eq)

section \<open>The keepalive\<close>






text \<open>
  Claim C7, as stated, has the stopped frame cancel the status-poll timer as well.  In the
  sample session the poll interval (timer 5) is still pending, and still held by
  \<^verbatim>\<open>statusPollIntervalRef\<close>, after the frame has been processed; the render that
  follows replaces it, and the sweep, by new intervals, so a status-poll timer is pending
  then too.
\<close>

theorem c7_poll_timer_counterexample:
  "\<lparr>handle = 5, delay = 1000, repeats = True, callback = PollCb True\<rparr>
     \<in> set (timers (step (SocketMessage 0 stoppedFrame) abcWorld))
   \<and> statusPollIntervalRef (step (SocketMessage 0 stoppedFrame) abcWorld) = Some 5
   \<and> timers (run [SocketMessage 0 stoppedFrame, Render] abcWorld) =
       [\<lparr>handle = 6, delay = 3000, repeats = True, callback = ConnCheckCb False\<rparr>,
        \<lparr>handle = 7, delay = 1000, repeats = True, callback = PollCb False\<rparr>]"
  by (simp add: abcWorld_eq sampleWorld_eq stoppedFrame_def onmessageHandler_def getProp_def
      nullish_def Let_def op_defs render_def effectSetup_def effectCleanup_def)

text \<open>
  Claim C7, amended.  Processing a stopped frame marks recording inactive, clears the
  visible error and cancels the keepalive timer held in \<^verbatim>\<open>pingIntervalRef\<close>.  It does
  not cancel the status-poll timer: every other pending timer stays pending and
  \<^verbatim>\<open>statusPollIntervalRef\<close> is unchanged; when the effect was mounted for an active
  recording, the render that follows registers a new 1000 ms poll interval, whose captured
  flag is false.
\<close>

theorem c7_stopped_frame:
  assumes "getProp data ''type'' = Some (JStr ''stopped'')"
  shows "\<not> isRecording (state (onmessageHandler data w))
       \<and> error (state (onmessageHandler data w)) = JNull
       \<and> timers (onmessageHandler data w) =
           filter (\<lambda>t. Some (handle t) \<noteq> pingIntervalRef w) (timers w)
       \<and> statusPollIntervalRef (onmessageHandler data w) = statusPollIntervalRef w
       \<and> (\<forall>t\<in>set (timers w). Some (handle t) \<noteq> pingIntervalRef w \<longrightarrow>
            t \<in> set (timers (onmessageHandler data w)))
       \<and> (\<forall>h. effect w = Some (True, h) \<longrightarrow>
            \<lparr>handle = Suc (nextTimer w), delay = 1000, repeats = True, callback = PollCb False\<rparr>
              \<in> set (timers (render (onmessageHandler data w)))
            \<and> statusPollIntervalRef (render (onmessageHandler data w)) = Some (Suc (nextTimer w)))"
  using assms
  by (auto simp: onmessageHandler_def Let_def op_defs render_def effectSetup_def effectCleanup_def
      split: option.splits)

theorem c7_stopped_frame_witness:
  "\<not> isRecording (state (onmessageHandler stoppedFrame abcWorld))
   \<and> timers (onmessageHandler stoppedFrame abcWorld) =
       [\<lparr>handle = 4, delay = 3000, repeats = True, callback = ConnCheckCb True\<rparr>,
        \<lparr>handle = 5, delay = 1000, repeats = True, callback = PollCb True\<rparr>]
   \<and> statusPollIntervalRef (render (onmessageHandler stoppedFrame abcWorld)) = Some 7"
  using c7_stopped_frame [of stoppedFrame abcWorld]
  by (simp add: stoppedFrame_def getProp_def nullish_def abcWorld_eq sampleWorld_eq)

section \<open>The timeouts of \<^verbatim>\<open>reconnectWebSocket\<close>\<close>

lemma tracked_fields [simp]:
  "reconnectTracked (w\<lparr>state := a\<rparr>) = reconnectTracked w"
  "reconnectTracked (w\<lparr>wsRef := b\<rparr>) = reconnectTracked w"
  "reconnectTracked (w\<lparr>reconnectAttemptsRef := c\<rparr>) = reconnectTracked w"
  "reconnectTracked (w\<lparr>pingIntervalRef := d\<rparr>) = reconnectTracked w"
  "reconnectTracked (w\<lparr>sessionIdRef := e\<rparr>) = reconnectTracked w"
  "reconnectTracked (w\<lparr>recordingParamsRef := f\<rparr>) = reconnectTracked w"
  "reconnectTracked (w\<lparr>statusPollIntervalRef := g\<rparr>) = reconnectTracked w"
  "reconnectTracked (w\<lparr>effect := h\<rparr>) = reconnectTracked w"
  "reconnectTracked (w\<lparr>nextTimer := i\<rparr>) = reconnectTracked w"
  "reconnectTracked (w\<lparr>sockets := j\<rparr>) = reconnectTracked w"
  by (simp_all add: reconnectTracked_def reconnectTimeouts_def)

lemma tracked_ops [simp]:
  "reconnectTracked (setState f w) = reconnectTracked w"
  "reconnectTracked (updSocket i g w) = reconnectTracked w"
  "reconnectTracked (newWebSocket u w) = reconnectTracked w"
  "reconnectTracked (wsSend i v w) = reconnectTracked w"
  "reconnectTracked (wsClose i w) = reconnectTracked w"
  by (simp_all add: setState_def updSocket_def newWebSocket_def wsSend_def wsClose_def)

lemma timeouts_clearTimer:
  "reconnectTimeouts (clearTimer h w) = filter (\<lambda>t. handle t \<noteq> h) (reconnectTimeouts w)"
  by (simp add: reconnectTimeouts_def clearTimer_def) (metis (mono_tags, lifting) filter_cong)

lemma tracked_clearTimer [simp]: "reconnectTracked w \<Longrightarrow> reconnectTracked (clearTimer h w)"
proof -
  assume a: "reconnectTracked w"
  have "length (filter (\<lambda>t. handle t \<noteq> h) (reconnectTimeouts w)) \<le> length (reconnectTimeouts w)"
    by (rule length_filter_le)
  with a have len: "length (reconnectTimeouts (clearTimer h w)) \<le> 1"
    unfolding timeouts_clearTimer reconnectTracked_def by linarith
  have "reconnectTimeoutRef (clearTimer h w) = reconnectTimeoutRef w"
    by (simp add: clearTimer_def)
  with a have "\<forall>t\<in>set (reconnectTimeouts (clearTimer h w)).
      reconnectTimeoutRef (clearTimer h w) = Some (handle t) \<and> callback t = ReconnectCb True"
    unfolding timeouts_clearTimer reconnectTracked_def by simp
  with len show ?thesis
    unfolding reconnectTracked_def by blast
qed

lemma tracked_clearRef [simp]: "reconnectTracked w \<Longrightarrow> reconnectTracked (clearRef r w)"
  by (simp add: clearRef_def split: option.splits)

lemma tracked_setTimer [simp]:
  "reconnectTracked w \<Longrightarrow> \<not> isReconnectCb c \<Longrightarrow> reconnectTracked (setTimer d r c w)"
  by (simp add: reconnectTracked_def reconnectTimeouts_def setTimer_def)

lemma timeouts_after_clear:
  assumes "reconnectTracked w"
  shows "reconnectTimeouts (clearRef (reconnectTimeoutRef w) w) = []"
proof (cases "reconnectTimeoutRef w")
  case None
  with assms have "set (reconnectTimeouts w) = {}"
    by (auto simp: reconnectTracked_def)
  with None show ?thesis by (simp add: clearRef_def)
next
  case (Some h)
  with assms have "\<forall>t\<in>set (reconnectTimeouts w). handle t = h"
    by (auto simp: reconnectTracked_def)
  then have "filter (\<lambda>t. handle t \<noteq> h) (reconnectTimeouts w) = []"
    by (auto simp: filter_empty_conv)
  then show ?thesis using Some by (simp add: clearRef_def timeouts_clearTimer)
qed

lemma tracked_reconnectWebSocket [simp]:
  assumes "reconnectTracked w"
  shows "reconnectTracked (reconnectWebSocket rec w)"
proof (cases "\<not> rec \<or> falsyStr (sessionIdRef w) \<or> \<not> truthy (recordingParamsRef w)")
  case True
  with assms show ?thesis by (simp add: reconnectWebSocket_def)
next
  case False
  have p: "reconnectTimeouts (clearRef (reconnectTimeoutRef w) w) = []"
    by (rule timeouts_after_clear [OF assms])
  from False have "reconnectTimeouts (reconnectWebSocket rec w) =
      reconnectTimeouts (clearRef (reconnectTimeoutRef w) w) @
      [\<lparr>handle = nextTimer w, delay = reconnectDelay (reconnectAttemptsRef w), repeats = False,
        callback = ReconnectCb rec\<rparr>]"
    by (simp add: reconnectWebSocket_def Let_def reconnectTimeouts_def setTimer_def clearRef_def
        clearTimer_def split: option.splits)
  with p False show ?thesis
    by (simp add: reconnectTracked_def reconnectWebSocket_def Let_def clearRef_def clearTimer_def
        setTimer_def split: option.splits)
qed


lemma tracked_handlers [simp]:
  assumes "reconnectTracked w"
  shows "reconnectTracked (setupWebSocketHandlers rec ws w)"
    and "reconnectTracked (pingFired rec ws throws w)"
    and "reconnectTracked (onerrorHandler rec w)"
    and "reconnectTracked (oncloseHandler c code w)"
    and "reconnectTracked (closeDelayFired rec w)"
    and "reconnectTracked (reconnectTimerFired rec throws w)"
    and "reconnectTracked (onmessageHandler data w)"
    and "reconnectTracked (onopenStart ws w)"
    and "reconnectTracked (clearClicked w)"
    and "reconnectTracked (handleVisibilityChange rec hidden w)"
    and "reconnectTracked (connectionCheckFired rec w)"
    and "reconnectTracked (pollResponse r w)"
    and "reconnectTracked (effectSetup rec w)"
    and "reconnectTracked (effectCleanup h w)"
  using assms
  by (simp_all add: setupWebSocketHandlers_def pingFired_def onerrorHandler_def oncloseHandler_def
      closeDelayFired_def reconnectTimerFired_def onmessageHandler_def onopenStart_def
      clearClicked_def handleVisibilityChange_def connectionCheckFired_def pollResponse_def
      effectSetup_def effectCleanup_def Let_def
      split: option.splits onclose_h.splits poll_result.splits)

lemma tracked_handlers2 [simp]:
  assumes "reconnectTracked w"
  shows "reconnectTracked (onopenReconnect rec ws w)"
    and "reconnectTracked (startRecording rec st now throws w)"
    and "reconnectTracked (render w)"
  using assms
  by (simp_all add: onopenReconnect_def startRecording_def render_def Let_def
      split: option.splits)

lemma tracked_stopRecording [simp]:
  assumes "reconnectTracked w"
  shows "reconnectTracked (snd (stopRecording throws w))"
proof -
  have p: "reconnectTimeouts (clearRef (reconnectTimeoutRef w) w) = []"
    by (rule timeouts_after_clear [OF assms])
  have "reconnectTracked ((clearRef (reconnectTimeoutRef w) w)\<lparr>reconnectTimeoutRef := None\<rparr>)"
    using p by (simp add: reconnectTracked_def reconnectTimeouts_def)
  then show ?thesis
    by (simp add: stopRecording_def Let_def split: option.splits)
qed

lemma tracked_fire [simp]:
  assumes "reconnectTracked w"
  shows "reconnectTracked (fire h throws w)"
  using assms
  by (simp add: fire_def runCallback_def split: option.splits timer_cb.splits)

lemma tracked_socket [simp]:
  assumes "reconnectTracked w"
  shows "reconnectTracked (socketOpen i w)" and "reconnectTracked (socketClose i code w)"
  using assms
  by (simp_all add: socketOpen_def socketClose_def Let_def split: option.splits onopen_h.splits)

lemma tracked_step: "reconnectTracked w \<Longrightarrow> reconnectTracked (step e w)"
  by (cases e) (simp_all split: option.splits)

lemma tracked_run: "reconnectTracked w \<Longrightarrow> reconnectTracked (run evs w)"
  by (induction evs arbitrary: w) (simp_all add: tracked_step)

lemma tracked_initial: "reconnectTracked initialWorld"
  by (simp add: reconnectTracked_def reconnectTimeouts_def initialWorld_def)

lemma inactiveWorld_eq:
  "inactiveWorld =
     sampleWorld\<lparr>state := (state sampleWorld)\<lparr>isRecording := False, error := JStr ''failed''\<rparr>,
       wsRef := Some 1, reconnectTimeoutRef := Some 6, pingIntervalRef := Some 7,
       statusPollIntervalRef := Some 9, effect := Some (False, 8),
       timers := [\<lparr>handle = 7, delay = 10000, repeats = True, callback = PingCb True 1\<rparr>,
                  \<lparr>handle = 8, delay = 3000, repeats = True, callback = ConnCheckCb False\<rparr>,
                  \<lparr>handle = 9, delay = 1000, repeats = True, callback = PollCb False\<rparr>],
       nextTimer := 10,
       sockets := [\<lparr>url = ''ws://localhost:8000/ws/transcribe/session_17'',
                    readyState = CONNECTING, onopen = Some OpenStart, onmessage = True,
                    onerror = Some False, onclose = Some (CloseSetup False), sent = []\<rparr>,
                   \<lparr>url = ''ws://localhost:8000/ws/transcribe/session_17'',
                    readyState = OPEN, onopen = Some (OpenReconnect True), onmessage = True,
                    onerror = Some True, onclose = Some (CloseSetup True),
                    sent = [paramsSnapshot defaultSettings]\<rparr>]\<rparr>"
  by (simp add: inactiveWorld_def sampleWorld_eq handler_defs op_defs Let_def reconnectDelay_def
      reconnectFrame_paramsSnapshot errorFrame_def getProp_def nullish_def)

lemma inactiveWorld_error:
  "step (SocketError 1) inactiveWorld =
     inactiveWorld\<lparr>reconnectTimeoutRef := Some 10, reconnectAttemptsRef := 1,
       timers := timers inactiveWorld @
                 [\<lparr>handle = 10, delay = 100, repeats = False, callback = ReconnectCb True\<rparr>],
       nextTimer := 11\<rparr>"
  by (simp add: inactiveWorld_eq sampleWorld_eq onerrorHandler_def reconnectWebSocket_def op_defs
      Let_def reconnectDelay_def)

lemma inactiveWorld_close:
  "run [SocketError 1, SocketClose 1 1006] inactiveWorld =
     inactiveWorld\<lparr>reconnectTimeoutRef := Some 10, reconnectAttemptsRef := 1,
       timers := timers inactiveWorld @
                 [\<lparr>handle = 10, delay = 100, repeats = False, callback = ReconnectCb True\<rparr>,
                  \<lparr>handle = 11, delay = 500, repeats = False, callback = CloseDelayCb True\<rparr>],
       nextTimer := 12,
       sockets := [sockets inactiveWorld ! 0, (sockets inactiveWorld ! 1)\<lparr>readyState := CLOSED\<rparr>]\<rparr>"
proof -
  have "run [SocketError 1, SocketClose 1 1006] inactiveWorld =
        step (SocketClose 1 1006) (step (SocketError 1) inactiveWorld)"
    by (simp only: run.simps)
  also have "\<dots> =
     inactiveWorld\<lparr>reconnectTimeoutRef := Some 10, reconnectAttemptsRef := 1,
       timers := timers inactiveWorld @
                 [\<lparr>handle = 10, delay = 100, repeats = False, callback = ReconnectCb True\<rparr>,
                  \<lparr>handle = 11, delay = 500, repeats = False, callback = CloseDelayCb True\<rparr>],
       nextTimer := 12,
       sockets := [sockets inactiveWorld ! 0, (sockets inactiveWorld ! 1)\<lparr>readyState := CLOSED\<rparr>]\<rparr>"
    unfolding inactiveWorld_error
    by (simp add: inactiveWorld_eq sampleWorld_eq socketClose_def oncloseHandler_def op_defs Let_def)
  finally show ?thesis .
qed

lemma inactiveWorld_reopened:
  "run [SocketError 1, SocketClose 1 1006, Fire 10 False, SocketOpen 2] inactiveWorld =
     inactiveWorld\<lparr>wsRef := Some 2, reconnectTimeoutRef := Some 10, reconnectAttemptsRef := 0,
       pingIntervalRef := Some 12,
       timers := [\<lparr>handle = 8, delay = 3000, repeats = True, callback = ConnCheckCb False\<rparr>,
                  \<lparr>handle = 9, delay = 1000, repeats = True, callback = PollCb False\<rparr>,
                  \<lparr>handle = 11, delay = 500, repeats = False, callback = CloseDelayCb True\<rparr>,
                  \<lparr>handle = 12, delay = 10000, repeats = True, callback = PingCb True 2\<rparr>],
       nextTimer := 13,
       sockets := [sockets inactiveWorld ! 0, (sockets inactiveWorld ! 1)\<lparr>readyState := CLOSED\<rparr>,
                   \<lparr>url = ''ws://localhost:8000/ws/transcribe/session_17'',
                    readyState = OPEN, onopen = Some (OpenReconnect True), onmessage = True,
                    onerror = Some True, onclose = Some (CloseSetup True),
                    sent = [paramsSnapshot defaultSettings]\<rparr>]\<rparr>"
proof -
  have "run [SocketError 1, SocketClose 1 1006, Fire 10 False, SocketOpen 2] inactiveWorld =
        step (SocketOpen 2) (step (Fire 10 False)
          (run [SocketError 1, SocketClose 1 1006] inactiveWorld))"
    by (simp only: run.simps)
  also have "\<dots> =
     inactiveWorld\<lparr>wsRef := Some 2, reconnectTimeoutRef := Some 10, reconnectAttemptsRef := 0,
       pingIntervalRef := Some 12,
       timers := [\<lparr>handle = 8, delay = 3000, repeats = True, callback = ConnCheckCb False\<rparr>,
                  \<lparr>handle = 9, delay = 1000, repeats = True, callback = PollCb False\<rparr>,
                  \<lparr>handle = 11, delay = 500, repeats = False, callback = CloseDelayCb True\<rparr>,
                  \<lparr>handle = 12, delay = 10000, repeats = True, callback = PingCb True 2\<rparr>],
       nextTimer := 13,
       sockets := [sockets inactiveWorld ! 0, (sockets inactiveWorld ! 1)\<lparr>readyState := CLOSED\<rparr>,
                   \<lparr>url = ''ws://localhost:8000/ws/transcribe/session_17'',
                    readyState = OPEN, onopen = Some (OpenReconnect True), onmessage = True,
                    onerror = Some True, onclose = Some (CloseSetup True),
                    sent = [paramsSnapshot defaultSettings]\<rparr>]\<rparr>"
    unfolding inactiveWorld_close
    by (simp add: inactiveWorld_eq sampleWorld_eq handler_defs op_defs Let_def
        reconnectFrame_paramsSnapshot)
  finally show ?thesis .
qed

text \<open>
  Claim C3 says that \<^verbatim>\<open>reconnectWebSocket\<close> does nothing whenever the session is
  inactive, and that at most one scheduled reconnect is pending at any time.  The code
  tests \<^verbatim>\<open>state.isRecording\<close> as its caller's closure holds it, and the handlers of a
  socket created by a reconnect hold the value true for good.  In \<open>inactiveWorld\<close> the
  server has reported a failure and recording is marked inactive, but the session id and
  the parameters are still cached.  The socket's error event then runs the stale
  \<^verbatim>\<open>onerror\<close>, whose call of \<^verbatim>\<open>reconnectWebSocket\<close> schedules a reconnect (timer
  10); its close event leaves a 500 ms timer (11) pending beside it; timer 10 creates a
  third socket for the same session, which opens and replays the parameters; and timer
  11, which nothing cancelled, then schedules one more reconnect (timer 13) although
  that socket is open.  Recording is marked inactive throughout.
\<close>

theorem c3_stale_flag_reconnects:
  "\<not> isRecording (state inactiveWorld)
   \<and> onerror (sockets inactiveWorld ! 1) = Some True
   \<and> onclose (sockets inactiveWorld ! 1) = Some (CloseSetup True)
   \<and> reconnectTimeouts inactiveWorld = []
   \<and> reconnectTimeouts (step (SocketError 1) inactiveWorld) =
       [\<lparr>handle = 10, delay = 100, repeats = False, callback = ReconnectCb True\<rparr>]
   \<and> reconnectTimeouts (run [SocketError 1, SocketClose 1 1006] inactiveWorld) =
       [\<lparr>handle = 10, delay = 100, repeats = False, callback = ReconnectCb True\<rparr>]
   \<and> closeDelayTimeouts (run [SocketError 1, SocketClose 1 1006] inactiveWorld) =
       [\<lparr>handle = 11, delay = 500, repeats = False, callback = CloseDelayCb True\<rparr>]
   \<and> sockets (run [SocketError 1, SocketClose 1 1006, Fire 10 False, SocketOpen 2] inactiveWorld) ! 2 =
       \<lparr>url = ''ws://localhost:8000/ws/transcribe/session_17'',
        readyState = OPEN, onopen = Some (OpenReconnect True), onmessage = True,
        onerror = Some True, onclose = Some (CloseSetup True),
        sent = [paramsSnapshot defaultSettings]\<rparr>
   \<and> reconnectTimeouts
         (run [SocketError 1, SocketClose 1 1006, Fire 10 False, SocketOpen 2, Fire 11 False]
            inactiveWorld) =
       [\<lparr>handle = 13, delay = 100, repeats = False, callback = ReconnectCb True\<rparr>]
   \<and> \<not> isRecording (state
         (run [SocketError 1, SocketClose 1 1006, Fire 10 False, SocketOpen 2, Fire 11 False]
            inactiveWorld))"
proof -
  have a: "\<not> isRecording (state inactiveWorld)
      \<and> onerror (sockets inactiveWorld ! 1) = Some True
      \<and> onclose (sockets inactiveWorld ! 1) = Some (CloseSetup True)
      \<and> reconnectTimeouts inactiveWorld = []"
    by (simp add: inactiveWorld_eq sampleWorld_eq reconnectTimeouts_def)
  have b: "reconnectTimeouts (step (SocketError 1) inactiveWorld) =
       [\<lparr>handle = 10, delay = 100, repeats = False, callback = ReconnectCb True\<rparr>]"
    unfolding inactiveWorld_error
    by (simp add: inactiveWorld_eq sampleWorld_eq reconnectTimeouts_def del: step.simps)
  have c: "reconnectTimeouts (run [SocketError 1, SocketClose 1 1006] inactiveWorld) =
       [\<lparr>handle = 10, delay = 100, repeats = False, callback = ReconnectCb True\<rparr>]
      \<and> closeDelayTimeouts (run [SocketError 1, SocketClose 1 1006] inactiveWorld) =
       [\<lparr>handle = 11, delay = 500, repeats = False, callback = CloseDelayCb True\<rparr>]"
    unfolding inactiveWorld_close
    by (simp add: inactiveWorld_eq sampleWorld_eq reconnectTimeouts_def closeDelayTimeouts_def)
  have d: "sockets (run [SocketError 1, SocketClose 1 1006, Fire 10 False, SocketOpen 2] inactiveWorld) ! 2 =
       \<lparr>url = ''ws://localhost:8000/ws/transcribe/session_17'',
        readyState = OPEN, onopen = Some (OpenReconnect True), onmessage = True,
        onerror = Some True, onclose = Some (CloseSetup True),
        sent = [paramsSnapshot defaultSettings]\<rparr>"
    unfolding inactiveWorld_reopened by simp
  have "run [SocketError 1, SocketClose 1 1006, Fire 10 False, SocketOpen 2, Fire 11 False]
            inactiveWorld =
        step (Fire 11 False)
          (run [SocketError 1, SocketClose 1 1006, Fire 10 False, SocketOpen 2] inactiveWorld)"
    by (simp only: run.simps)
  also have "\<dots> =
        (run [SocketError 1, SocketClose 1 1006, Fire 10 False, SocketOpen 2] inactiveWorld)
          \<lparr>reconnectTimeoutRef := Some 13, reconnectAttemptsRef := 1,
           timers := [\<lparr>handle = 8, delay = 3000, repeats = True, callback = ConnCheckCb False\<rparr>,
                      \<lparr>handle = 9, delay = 1000, repeats = True, callback = PollCb False\<rparr>,
                      \<lparr>handle = 12, delay = 10000, repeats = True, callback = PingCb True 2\<rparr>,
                      \<lparr>handle = 13, delay = 100, repeats = False, callback = ReconnectCb True\<rparr>],
           nextTimer := 14\<rparr>"
    unfolding inactiveWorld_reopened
    by (simp add: inactiveWorld_eq sampleWorld_eq fire_def runCallback_def closeDelayFired_def
        reconnectWebSocket_def op_defs Let_def reconnectDelay_def)
  finally have e: "reconnectTimeouts
         (run [SocketError 1, SocketClose 1 1006, Fire 10 False, SocketOpen 2, Fire 11 False]
            inactiveWorld) =
       [\<lparr>handle = 13, delay = 100, repeats = False, callback = ReconnectCb True\<rparr>]
     \<and> \<not> isRecording (state
         (run [SocketError 1, SocketClose 1 1006, Fire 10 False, SocketOpen 2, Fire 11 False]
            inactiveWorld))"
    unfolding inactiveWorld_reopened
    by (simp add: inactiveWorld_eq sampleWorld_eq reconnectTimeouts_def)
  from a b c d e show ?thesis
    by blast
qed

theorem c3_stale_flag_reconnects_witness:
  "\<not> isRecording (state inactiveWorld)
   \<and> reconnectTimeouts (step (SocketError 1) inactiveWorld) \<noteq> []"
  using c3_stale_flag_reconnects by simp

section \<open>No transport after stop\<close>

lemma kept [simp]:
  "sessionIdRef (setState f w) = sessionIdRef w"
  "sessionIdRef (setTimer d r c w) = sessionIdRef w"
  "sessionIdRef (clearTimer h w) = sessionIdRef w"
  "sessionIdRef (clearRef x w) = sessionIdRef w"
  "sessionIdRef (updSocket i g w) = sessionIdRef w"
  "sessionIdRef (newWebSocket u w) = sessionIdRef w"
  "sessionIdRef (wsSend i v w) = sessionIdRef w"
  "sessionIdRef (wsClose i w) = sessionIdRef w"
  "recordingParamsRef (setState f w) = recordingParamsRef w"
  "recordingParamsRef (setTimer d r c w) = recordingParamsRef w"
  "recordingParamsRef (clearTimer h w) = recordingParamsRef w"
  "recordingParamsRef (clearRef x w) = recordingParamsRef w"
  "recordingParamsRef (updSocket i g w) = recordingParamsRef w"
  "recordingParamsRef (newWebSocket u w) = recordingParamsRef w"
  "recordingParamsRef (wsSend i v w) = recordingParamsRef w"
  "recordingParamsRef (wsClose i w) = recordingParamsRef w"
  by (simp_all add: op_defs split: option.splits)

lemma kept_reconnect [simp]:
  "sessionIdRef (reconnectWebSocket rec w) = sessionIdRef w"
  "recordingParamsRef (reconnectWebSocket rec w) = recordingParamsRef w"
  "sessionIdRef (setupWebSocketHandlers rec ws w) = sessionIdRef w"
  "recordingParamsRef (setupWebSocketHandlers rec ws w) = recordingParamsRef w"
  by (simp_all add: reconnectWebSocket_def setupWebSocketHandlers_def Let_def)

lemma kept_step:
  assumes "\<forall>rec st now throws. e \<noteq> Start rec st now throws" and "\<forall>throws. e \<noteq> Stop throws"
  shows "sessionIdRef (step e w) = sessionIdRef w" and "recordingParamsRef (step e w) = recordingParamsRef w"
  using assms
  by (cases e; simp add: pingFired_def onerrorHandler_def oncloseHandler_def
      closeDelayFired_def onmessageHandler_def onopenStart_def onopenReconnect_def
      reconnectTimerFired_def fire_def runCallback_def socketOpen_def socketClose_def
      clearClicked_def handleVisibilityChange_def connectionCheckFired_def pollResponse_def
      effectSetup_def effectCleanup_def render_def Let_def
      split: option.splits onclose_h.splits poll_result.splits timer_cb.splits onopen_h.splits)+

lemma urls_updSocket: "(\<And>s. url (f s) = url s) \<Longrightarrow> urls (updSocket i f w) = urls w"
  by (simp add: urls_def updSocket_def map_update list_update_same_conv)

lemma length_updSocket [simp]: "length (sockets (updSocket i f w)) = length (sockets w)"
  by (simp add: updSocket_def)

lemma sid_updSocket [simp]: "sessionIdRef (updSocket i f w) = sessionIdRef w"
  by (simp add: updSocket_def)

lemma noT_updSocket: "(\<And>s. url (f s) = url s) \<Longrightarrow> noTransport sid n (updSocket i f w) = noTransport sid n w"
  by (simp add: noTransport_def urls_updSocket)

lemma noT_fields [simp]:
  "noTransport sid n (w\<lparr>state := a\<rparr>) = noTransport sid n w"
  "noTransport sid n (w\<lparr>wsRef := b\<rparr>) = noTransport sid n w"
  "noTransport sid n (w\<lparr>reconnectAttemptsRef := c\<rparr>) = noTransport sid n w"
  "noTransport sid n (w\<lparr>pingIntervalRef := d\<rparr>) = noTransport sid n w"
  "noTransport sid n (w\<lparr>reconnectTimeoutRef := e\<rparr>) = noTransport sid n w"
  "noTransport sid n (w\<lparr>recordingParamsRef := f\<rparr>) = noTransport sid n w"
  "noTransport sid n (w\<lparr>statusPollIntervalRef := g\<rparr>) = noTransport sid n w"
  "noTransport sid n (w\<lparr>effect := h\<rparr>) = noTransport sid n w"
  "noTransport sid n (w\<lparr>nextTimer := i\<rparr>) = noTransport sid n w"
  "noTransport sid n (w\<lparr>timers := j\<rparr>) = noTransport sid n w"
  by (simp_all add: noTransport_def urls_def)

lemma noT_ops [simp]:
  "noTransport sid n (setState f w) = noTransport sid n w"
  "noTransport sid n (setTimer d r c w) = noTransport sid n w"
  "noTransport sid n (clearTimer h w) = noTransport sid n w"
  "noTransport sid n (clearRef x w) = noTransport sid n w"
  "noTransport sid n (wsSend i v w) = noTransport sid n w"
  "noTransport sid n (wsClose i w) = noTransport sid n w"
  by (simp_all add: setState_def setTimer_def clearTimer_def clearRef_def wsSend_def wsClose_def
      noT_updSocket split: option.splits)

lemma noT_reconnectWebSocket [simp]:
  "noTransport sid n (reconnectWebSocket rec w) = noTransport sid n w"
  by (simp add: reconnectWebSocket_def Let_def)

lemma noT_setup [simp]:
  "noTransport sid n (setupWebSocketHandlers rec ws w) = noTransport sid n w"
  by (simp add: setupWebSocketHandlers_def Let_def noT_updSocket)

lemma ws_url_inj: "ws_url a = ws_url (Some sid) \<Longrightarrow> sid \<noteq> ''null'' \<Longrightarrow> a = Some sid"
  by (cases a) (simp_all add: ws_url_def)

lemma noT_newWebSocket:
  assumes "noTransport sid n w" and "u \<noteq> ws_url (Some sid)"
  shows "noTransport sid n (newWebSocket u w)"
  using assms by (auto simp: noTransport_def urls_def newWebSocket_def)

lemma noT_reconnectTimerFired:
  assumes "noTransport sid n w" and "sid \<noteq> ''null''"
  shows "noTransport sid n (reconnectTimerFired rec throws w)"
proof -
  from assms have "ws_url (sessionIdRef w) \<noteq> ws_url (Some sid)"
    using ws_url_inj by (auto simp: noTransport_def)
  with assms(1) show ?thesis
    by (simp add: reconnectTimerFired_def Let_def noT_updSocket noT_newWebSocket)
qed

lemma noT_startRecording:
  assumes "noTransport sid n w" and "''session_'' @ decimal now \<noteq> sid"
  shows "noTransport sid n (startRecording rec st now throws w)"
  using assms
  by (auto simp: startRecording_def setupWebSocketHandlers_def Let_def noTransport_def urls_def
      setState_def setTimer_def clearTimer_def clearRef_def updSocket_def newWebSocket_def ws_url_def
      split: option.splits)

lemma noT_handlers [simp]:
  "noTransport sid n (pingFired rec ws throws w) = noTransport sid n w"
  "noTransport sid n (onerrorHandler rec w) = noTransport sid n w"
  "noTransport sid n (oncloseHandler c code w) = noTransport sid n w"
  "noTransport sid n (closeDelayFired rec w) = noTransport sid n w"
  "noTransport sid n (onmessageHandler data w) = noTransport sid n w"
  "noTransport sid n (onopenStart ws w) = noTransport sid n w"
  "noTransport sid n (onopenReconnect rec ws w) = noTransport sid n w"
  "noTransport sid n (clearClicked w) = noTransport sid n w"
  "noTransport sid n (handleVisibilityChange rec hidden w) = noTransport sid n w"
  "noTransport sid n (connectionCheckFired rec w) = noTransport sid n w"
  "noTransport sid n (pollResponse r w) = noTransport sid n w"
  "noTransport sid n (effectSetup rec w) = noTransport sid n w"
  "noTransport sid n (effectCleanup h w) = noTransport sid n w"
  "noTransport sid n (render w) = noTransport sid n w"
  by (simp_all add: pingFired_def onerrorHandler_def oncloseHandler_def
      closeDelayFired_def onmessageHandler_def onopenStart_def onopenReconnect_def
      clearClicked_def handleVisibilityChange_def connectionCheckFired_def pollResponse_def
      effectSetup_def effectCleanup_def render_def Let_def
      split: option.splits onclose_h.splits poll_result.splits)

lemma noT_sid_None: "noTransport sid n w \<Longrightarrow> noTransport sid n (w\<lparr>sessionIdRef := None\<rparr>)"
  by (simp add: noTransport_def urls_def)

lemma noT_stopRecording:
  assumes "noTransport sid n w"
  shows "noTransport sid n (snd (stopRecording throws w))"
  using assms
  by (simp add: stopRecording_def Let_def noT_sid_None split: option.splits)

lemma noT_fire:
  assumes "noTransport sid n w" and "sid \<noteq> ''null''"
  shows "noTransport sid n (fire h throws w)"
  using assms
  by (simp add: fire_def runCallback_def noT_reconnectTimerFired split: option.splits timer_cb.splits)

lemma noT_socket:
  assumes "noTransport sid n w"
  shows "noTransport sid n (socketOpen i w)" and "noTransport sid n (socketClose i code w)"
  using assms
  by (simp_all add: socketOpen_def socketClose_def Let_def noT_updSocket
      split: option.splits onopen_h.splits)

lemma noT_step:
  assumes "noTransport sid n w" and "sid \<noteq> ''null''" and "\<not> startsSession sid e"
  shows "noTransport sid n (step e w)"
  using assms
  by (cases e) (simp_all add: noT_startRecording noT_stopRecording noT_fire noT_socket
      split: option.splits)

lemma noT_run:
  assumes "noTransport sid n w" and "sid \<noteq> ''null''" and "\<forall>e\<in>set evs. \<not> startsSession sid e"
  shows "noTransport sid n (run evs w)"
  using assms
  by (induction evs arbitrary: w) (simp_all add: noT_step)

lemma sessionIdOk_step: "sessionIdOk w \<Longrightarrow> sessionIdOk (step e w)"
proof (cases "sessionBoundary e")
  case False
  then have "sessionIdRef (step e w) = sessionIdRef w"
    by (intro kept_step) auto
  then show "sessionIdOk w \<Longrightarrow> sessionIdOk (step e w)"
    by (simp add: sessionIdOk_def)
next
  case True
  then show "sessionIdOk w \<Longrightarrow> sessionIdOk (step e w)"
    by (cases e)
      (auto simp: sessionIdOk_def startRecording_def stopRecording_def Let_def
        setupWebSocketHandlers_def split: option.splits)
qed

lemma sessionIdOk_run: "sessionIdOk w \<Longrightarrow> sessionIdOk (run evs w)"
  by (induction evs arbitrary: w) (simp_all add: sessionIdOk_step)

lemma sessionIdOk_initial: "sessionIdOk initialWorld"
  by (simp add: sessionIdOk_def initialWorld_def)

lemma timeouts_kept [simp]:
  "reconnectTimeouts (w\<lparr>reconnectTimeoutRef := a\<rparr>) = reconnectTimeouts w"
  "reconnectTimeouts (w\<lparr>pingIntervalRef := b\<rparr>) = reconnectTimeouts w"
  "reconnectTimeouts (w\<lparr>statusPollIntervalRef := c\<rparr>) = reconnectTimeouts w"
  "reconnectTimeouts (w\<lparr>wsRef := d\<rparr>) = reconnectTimeouts w"
  "reconnectTimeouts (w\<lparr>sessionIdRef := e\<rparr>) = reconnectTimeouts w"
  "reconnectTimeouts (w\<lparr>recordingParamsRef := f\<rparr>) = reconnectTimeouts w"
  "reconnectTimeouts (setState g w) = reconnectTimeouts w"
  "reconnectTimeouts (wsSend i v w) = reconnectTimeouts w"
  "reconnectTimeouts (wsClose i w) = reconnectTimeouts w"
  by (simp_all add: reconnectTimeouts_def setState_def wsSend_def wsClose_def updSocket_def)

lemma timeouts_clearRef_empty:
  "reconnectTimeouts w = [] \<Longrightarrow> reconnectTimeouts (clearRef r w) = []"
  by (simp add: clearRef_def timeouts_clearTimer split: option.splits)

lemma stopRecording_completed:
  assumes "stopRecording throws w = (Completed, w')" and "reconnectTracked w"
  shows "reconnectTimeoutRef w' = None" and "sessionIdRef w' = None"
    and "recordingParamsRef w' = JNull" and "\<not> isRecording (state w')"
    and "reconnectTimeouts w' = []"
proof -
  have p: "reconnectTimeouts (clearRef (reconnectTimeoutRef w) w) = []"
    by (rule timeouts_after_clear [OF assms(2)])
  from assms(1) show "reconnectTimeoutRef w' = None" and "sessionIdRef w' = None"
    and "recordingParamsRef w' = JNull" and "\<not> isRecording (state w')"
    by (auto simp: stopRecording_def Let_def op_defs split: option.splits if_splits)
  from assms(1) p show "reconnectTimeouts w' = []"
    by (auto simp: stopRecording_def Let_def timeouts_clearRef_empty
        split: option.splits if_splits)
qed

lemma quiet_reconnectWebSocket: "sessionIdRef w = None \<Longrightarrow> reconnectWebSocket rec w = w"
  by (simp add: reconnectWebSocket_def falsyStr_def)

lemma timeouts_more [simp]:
  "reconnectTimeouts (w\<lparr>state := a\<rparr>) = reconnectTimeouts w"
  "reconnectTimeouts (w\<lparr>reconnectAttemptsRef := b\<rparr>) = reconnectTimeouts w"
  "reconnectTimeouts (w\<lparr>effect := c\<rparr>) = reconnectTimeouts w"
  "reconnectTimeouts (w\<lparr>nextTimer := d\<rparr>) = reconnectTimeouts w"
  "reconnectTimeouts (w\<lparr>sockets := e\<rparr>) = reconnectTimeouts w"
  "reconnectTimeouts (updSocket i f w) = reconnectTimeouts w"
  "reconnectTimeouts (newWebSocket u w) = reconnectTimeouts w"
  by (simp_all add: reconnectTimeouts_def updSocket_def newWebSocket_def)

lemma timeouts_setTimer:
  "\<not> isReconnectCb c \<Longrightarrow> reconnectTimeouts (setTimer d r c w) = reconnectTimeouts w"
  by (simp add: reconnectTimeouts_def setTimer_def)

lemma timeouts_clearTimer_empty:
  "reconnectTimeouts w = [] \<Longrightarrow> reconnectTimeouts (clearTimer h w) = []"
  by (simp add: timeouts_clearTimer)

lemma quiet_fields [simp]:
  "quiet (w\<lparr>state := a\<rparr>) = quiet w"
  "quiet (w\<lparr>wsRef := b\<rparr>) = quiet w"
  "quiet (w\<lparr>reconnectAttemptsRef := c\<rparr>) = quiet w"
  "quiet (w\<lparr>pingIntervalRef := d\<rparr>) = quiet w"
  "quiet (w\<lparr>reconnectTimeoutRef := e\<rparr>) = quiet w"
  "quiet (w\<lparr>recordingParamsRef := f\<rparr>) = quiet w"
  "quiet (w\<lparr>statusPollIntervalRef := g\<rparr>) = quiet w"
  "quiet (w\<lparr>effect := h\<rparr>) = quiet w"
  "quiet (w\<lparr>nextTimer := i\<rparr>) = quiet w"
  "quiet (w\<lparr>sockets := j\<rparr>) = quiet w"
  by (simp_all add: quiet_def)

lemma quiet_ops [simp]:
  "quiet (setState f w) = quiet w"
  "quiet (updSocket i g w) = quiet w"
  "quiet (wsSend i v w) = quiet w"
  "quiet (wsClose i w) = quiet w"
  by (simp_all add: quiet_def)

lemma quiet_timer_ops [simp]:
  assumes "quiet w"
  shows "quiet (clearTimer h w)" and "quiet (clearRef r w)"
    and "\<not> isReconnectCb c \<Longrightarrow> quiet (setTimer d x c w)"
    and "quiet (reconnectWebSocket rec w)"
  using assms
  by (simp_all add: quiet_def timeouts_clearTimer_empty timeouts_clearRef_empty timeouts_setTimer
      quiet_reconnectWebSocket)

lemma quiet_handlers [simp]:
  assumes "quiet w"
  shows "quiet (setupWebSocketHandlers rec ws w)"
    and "quiet (pingFired rec ws throws w)"
    and "quiet (onerrorHandler rec w)"
    and "quiet (oncloseHandler c code w)"
    and "quiet (closeDelayFired rec w)"
    and "quiet (onmessageHandler data w)"
    and "quiet (onopenStart ws w)"
    and "quiet (onopenReconnect rec ws w)"
    and "quiet (clearClicked w)"
    and "quiet (handleVisibilityChange rec hidden w)"
    and "quiet (connectionCheckFired rec w)"
    and "quiet (pollResponse r w)"
    and "quiet (effectSetup rec w)"
    and "quiet (effectCleanup h w)"
    and "quiet (render w)"
  using assms
  by (simp_all add: setupWebSocketHandlers_def pingFired_def onerrorHandler_def oncloseHandler_def
      closeDelayFired_def onmessageHandler_def onopenStart_def onopenReconnect_def
      clearClicked_def handleVisibilityChange_def connectionCheckFired_def pollResponse_def
      effectSetup_def effectCleanup_def render_def Let_def
      split: option.splits onclose_h.splits poll_result.splits)

lemma quiet_stopRecording [simp]: "quiet w \<Longrightarrow> quiet (snd (stopRecording throws w))"
  by (simp add: stopRecording_def Let_def quiet_def timeouts_clearRef_empty split: option.splits)

lemma find_in_set: "find P xs = Some t \<Longrightarrow> t \<in> set xs"
  by (induction xs) (auto split: if_splits)

lemma quiet_timer:
  assumes "quiet w" and "find (\<lambda>t. handle t = h) (timers w) = Some t"
  shows "\<not> isReconnectCb (callback t)"
proof
  assume "isReconnectCb (callback t)"
  with find_in_set [OF assms(2)] have "t \<in> set (reconnectTimeouts w)"
    by (simp add: reconnectTimeouts_def)
  with assms(1) show False
    by (simp add: quiet_def)
qed

lemma sockets_kept [simp]:
  "length (sockets (setState f w)) = length (sockets w)"
  "length (sockets (setTimer d r c w)) = length (sockets w)"
  "length (sockets (clearTimer h w)) = length (sockets w)"
  "length (sockets (clearRef x w)) = length (sockets w)"
  "length (sockets (wsSend i v w)) = length (sockets w)"
  "length (sockets (wsClose i w)) = length (sockets w)"
  "length (sockets (reconnectWebSocket rec w)) = length (sockets w)"
  "length (sockets (setupWebSocketHandlers rec ws w)) = length (sockets w)"
  by (simp_all add: setState_def setTimer_def clearTimer_def clearRef_def wsSend_def wsClose_def
      reconnectWebSocket_def setupWebSocketHandlers_def Let_def split: option.splits)

lemma sockets_kept_handlers [simp]:
  "length (sockets (pingFired rec ws throws w)) = length (sockets w)"
  "length (sockets (onerrorHandler rec w)) = length (sockets w)"
  "length (sockets (oncloseHandler c code w)) = length (sockets w)"
  "length (sockets (closeDelayFired rec w)) = length (sockets w)"
  "length (sockets (onmessageHandler data w)) = length (sockets w)"
  "length (sockets (onopenStart ws w)) = length (sockets w)"
  "length (sockets (onopenReconnect rec ws w)) = length (sockets w)"
  "length (sockets (clearClicked w)) = length (sockets w)"
  "length (sockets (handleVisibilityChange rec hidden w)) = length (sockets w)"
  "length (sockets (connectionCheckFired rec w)) = length (sockets w)"
  "length (sockets (pollResponse r w)) = length (sockets w)"
  "length (sockets (effectSetup rec w)) = length (sockets w)"
  "length (sockets (effectCleanup h w)) = length (sockets w)"
  "length (sockets (render w)) = length (sockets w)"
  "length (sockets (snd (stopRecording throws w))) = length (sockets w)"
  "length (sockets (socketOpen i w)) = length (sockets w)"
  "length (sockets (socketClose i code w)) = length (sockets w)"
  by (simp_all add: pingFired_def onerrorHandler_def oncloseHandler_def
      closeDelayFired_def onmessageHandler_def onopenStart_def onopenReconnect_def
      clearClicked_def handleVisibilityChange_def connectionCheckFired_def pollResponse_def
      effectSetup_def effectCleanup_def render_def stopRecording_def socketOpen_def
      socketClose_def Let_def
      split: option.splits onclose_h.splits poll_result.splits onopen_h.splits)

lemma quiet_fire:
  assumes "quiet w"
  shows "quiet (fire h throws w)" and "length (sockets (fire h throws w)) = length (sockets w)"
proof -
  show "quiet (fire h throws w)"
  proof (cases "find (\<lambda>t. handle t = h) (timers w)")
    case None
    with assms show ?thesis by (simp add: fire_def)
  next
    case (Some t)
    from quiet_timer [OF assms Some] assms Some show ?thesis
      by (cases "callback t") (simp_all add: fire_def runCallback_def)
  qed
  show "length (sockets (fire h throws w)) = length (sockets w)"
  proof (cases "find (\<lambda>t. handle t = h) (timers w)")
    case None
    then show ?thesis by (simp add: fire_def)
  next
    case (Some t)
    from quiet_timer [OF assms Some] Some show ?thesis
      by (cases "callback t") (simp_all add: fire_def runCallback_def)
  qed
qed

lemma quiet_socket [simp]:
  assumes "quiet w"
  shows "quiet (socketOpen i w)" and "quiet (socketClose i code w)"
  using assms
  by (simp_all add: socketOpen_def socketClose_def Let_def split: option.splits onopen_h.splits)

lemma quiet_step:
  assumes "quiet w" and "\<not> isStart e"
  shows "quiet (step e w)" and "length (sockets (step e w)) = length (sockets w)"
  using assms
  by (cases e; simp add: quiet_fire split: option.splits)+

lemma quiet_run:
  assumes "quiet w" and "\<forall>e\<in>set evs. \<not> isStart e"
  shows "quiet (run evs w) \<and> length (sockets (run evs w)) = length (sockets w)"
  using assms
proof (induction evs arbitrary: w)
  case Nil
  then show ?case by simp
next
  case (Cons e evs)
  then have "quiet (step e w)" and "length (sockets (step e w)) = length (sockets w)"
    by (simp_all add: quiet_step)
  with Cons show ?case
    by simp
qed

lemma deferredBeforeStop_run:
  "deferredBeforeStop =
     run [Render, Start False defaultSettings 17 False, Render, Fire 4 False, Fire 6 False,
          SocketOpen 1, SocketClose 1 1006] initialWorld"
  by (simp only: deferredBeforeStop_def sampleWorld_def run.simps)

lemma deferredBeforeStop_eq:
  "deferredBeforeStop =
     sampleWorld\<lparr>wsRef := Some 1, reconnectTimeoutRef := Some 6, pingIntervalRef := Some 7,
       timers := [\<lparr>handle = 4, delay = 3000, repeats = True, callback = ConnCheckCb True\<rparr>,
                  \<lparr>handle = 5, delay = 1000, repeats = True, callback = PollCb True\<rparr>,
                  \<lparr>handle = 7, delay = 10000, repeats = True, callback = PingCb True 1\<rparr>,
                  \<lparr>handle = 8, delay = 500, repeats = False, callback = CloseDelayCb True\<rparr>],
       nextTimer := 9,
       sockets := [\<lparr>url = ''ws://localhost:8000/ws/transcribe/session_17'',
                    readyState = CONNECTING, onopen = Some OpenStart, onmessage = True,
                    onerror = Some False, onclose = Some (CloseSetup False), sent = []\<rparr>,
                   \<lparr>url = ''ws://localhost:8000/ws/transcribe/session_17'',
                    readyState = CLOSED, onopen = Some (OpenReconnect True), onmessage = True,
                    onerror = Some True, onclose = Some (CloseSetup True),
                    sent = [paramsSnapshot defaultSettings]\<rparr>]\<rparr>"
  by (simp add: deferredBeforeStop_def sampleWorld_eq handler_defs op_defs Let_def reconnectDelay_def
      reconnectFrame_paramsSnapshot)

lemma deferredAfterStop_eq:
  "deferredAfterStop =
     sampleWorld\<lparr>state := (state sampleWorld)\<lparr>isRecording := False\<rparr>,
       wsRef := None, reconnectTimeoutRef := None, pingIntervalRef := None,
       sessionIdRef := None, recordingParamsRef := JNull, statusPollIntervalRef := None,
       timers := [\<lparr>handle = 4, delay = 3000, repeats = True, callback = ConnCheckCb True\<rparr>,
                  \<lparr>handle = 8, delay = 500, repeats = False, callback = CloseDelayCb True\<rparr>],
       nextTimer := 9,
       sockets := [\<lparr>url = ''ws://localhost:8000/ws/transcribe/session_17'',
                    readyState = CONNECTING, onopen = Some OpenStart, onmessage = True,
                    onerror = Some False, onclose = Some (CloseSetup False), sent = []\<rparr>,
                   \<lparr>url = ''ws://localhost:8000/ws/transcribe/session_17'',
                    readyState = CLOSED, onopen = Some (OpenReconnect True), onmessage = True,
                    onerror = Some True, onclose = Some (CloseSetup True),
                    sent = [paramsSnapshot defaultSettings]\<rparr>]\<rparr>"
  by (simp add: deferredAfterStop_def deferredBeforeStop_eq sampleWorld_eq stopRecording_def op_defs
      Let_def)

text \<open>
  Claim C2.  Let \<^verbatim>\<open>stopRecording\<close> complete in a world the component has reached, with
  session id \<open>sid\<close>.  Then the reconnect handle, the session id and the cached
  parameters are \<^verbatim>\<open>null\<close>, recording is marked inactive, and no timeout of
  \<^verbatim>\<open>reconnectWebSocket\<close> is pending: the \<^verbatim>\<open>clearTimeout\<close> of the stop removes the only one
  there can be.  Whatever events follow, short of a start that produces the same session
  id again, no socket created after the stop is addressed to \<open>sid\<close>; that would also
  hold for a socket created by a reconnect callback run afterwards.  What can still fire
  after the stop is a callback scheduled before it and held in no ref: the 500 ms timeout of
  \<^verbatim>\<open>ws.onclose\<close>, the keepalive of an earlier socket, the sweep of the effect.  Until the
  next start each of them, with whatever flag it captured, finds the session id
  \<^verbatim>\<open>null\<close> and does nothing towards a connection: \<^verbatim>\<open>reconnectWebSocket\<close> and the
  deferred callback of \<^verbatim>\<open>ws.onclose\<close> leave the world as it is, and after any such
  events, and after any timer fired on top of them, no socket has been created and no
  timeout of \<^verbatim>\<open>reconnectWebSocket\<close> is pending.
\<close>

theorem c2_no_transport_after_stop:
  assumes "w = run evs0 initialWorld" and "sessionIdRef w = Some sid"
    and "stopRecording throws w = (Completed, w')"
    and "\<forall>e\<in>set evs. \<not> startsSession sid e"
  shows "reconnectTimeoutRef w' = None \<and> sessionIdRef w' = None
       \<and> recordingParamsRef w' = JNull \<and> \<not> isRecording (state w')
       \<and> reconnectTimeouts w' = []
       \<and> (\<forall>s\<in>set (drop (length (sockets w')) (sockets (run evs w'))).
             url s \<noteq> ws_url (Some sid))
       \<and> (\<forall>rec thr. \<forall>s\<in>set (drop (length (sockets w'))
                                   (sockets (reconnectTimerFired rec thr (run evs w')))).
             url s \<noteq> ws_url (Some sid))
       \<and> ((\<forall>e\<in>set evs. \<not> isStart e) \<longrightarrow>
            sessionIdRef (run evs w') = None
            \<and> reconnectTimeouts (run evs w') = []
            \<and> length (sockets (run evs w')) = length (sockets w')
            \<and> (\<forall>rec. reconnectWebSocket rec (run evs w') = run evs w'
                     \<and> closeDelayFired rec (run evs w') = run evs w')
            \<and> (\<forall>h thr. length (sockets (fire h thr (run evs w'))) = length (sockets w')
                       \<and> reconnectTimeouts (fire h thr (run evs w')) = []))"
proof -
  have tr: "reconnectTracked w"
    unfolding assms(1) by (rule tracked_run [OF tracked_initial])
  have "sessionIdOk w"
    unfolding assms(1) by (rule sessionIdOk_run [OF sessionIdOk_initial])
  with assms(2) have "take 8 sid = ''session_''"
    by (simp add: sessionIdOk_def)
  then have sid: "sid \<noteq> ''null''"
    by auto
  note st = stopRecording_completed [OF assms(3) tr]
  from st(2) have "noTransport sid (length (sockets w')) w'"
    by (simp add: noTransport_def urls_def)
  then have inv: "noTransport sid (length (sockets w')) (run evs w')"
    using sid assms(4) by (rule noT_run)
  then have a: "\<forall>s\<in>set (drop (length (sockets w')) (sockets (run evs w'))).
      url s \<noteq> ws_url (Some sid)"
    by (auto simp: noTransport_def urls_def drop_map)
  have b: "\<forall>rec thr. \<forall>s\<in>set (drop (length (sockets w'))
                                   (sockets (reconnectTimerFired rec thr (run evs w')))).
      url s \<noteq> ws_url (Some sid)"
  proof (intro allI)
    fix rec thr
    have "noTransport sid (length (sockets w')) (reconnectTimerFired rec thr (run evs w'))"
      using inv sid by (rule noT_reconnectTimerFired)
    then show "\<forall>s\<in>set (drop (length (sockets w'))
                          (sockets (reconnectTimerFired rec thr (run evs w')))).
        url s \<noteq> ws_url (Some sid)"
      by (auto simp: noTransport_def urls_def drop_map)
  qed
  have c: "sessionIdRef (run evs w') = None
        \<and> reconnectTimeouts (run evs w') = []
        \<and> length (sockets (run evs w')) = length (sockets w')
        \<and> (\<forall>rec. reconnectWebSocket rec (run evs w') = run evs w'
                 \<and> closeDelayFired rec (run evs w') = run evs w')
        \<and> (\<forall>h thr. length (sockets (fire h thr (run evs w'))) = length (sockets w')
                   \<and> reconnectTimeouts (fire h thr (run evs w')) = [])"
    if ns: "\<forall>e\<in>set evs. \<not> isStart e"
  proof -
    from st(2) st(5) have "quiet w'"
      by (simp add: quiet_def)
    from quiet_run [OF this ns]
    have q: "quiet (run evs w')" and l: "length (sockets (run evs w')) = length (sockets w')"
      by simp_all
    from q have n: "sessionIdRef (run evs w') = None" and e: "reconnectTimeouts (run evs w') = []"
      by (simp_all add: quiet_def)
    have r: "reconnectWebSocket rec (run evs w') = run evs w'" for rec
      using n by (rule quiet_reconnectWebSocket)
    then have d: "closeDelayFired rec (run evs w') = run evs w'" for rec
      by (simp add: closeDelayFired_def)
    have f: "length (sockets (fire h thr (run evs w'))) = length (sockets w')
           \<and> reconnectTimeouts (fire h thr (run evs w')) = []" for h thr
      using quiet_fire [OF q, of h thr] l by (simp add: quiet_def)
    from n e l r d f show ?thesis
      by blast
  qed
  from st a b c show ?thesis
    by blast
qed

theorem c2_no_transport_after_stop_witness:
  "closeDelayTimeouts deferredBeforeStop =
     [\<lparr>handle = 8, delay = 500, repeats = False, callback = CloseDelayCb True\<rparr>]
   \<and> closeDelayTimeouts deferredAfterStop =
     [\<lparr>handle = 8, delay = 500, repeats = False, callback = CloseDelayCb True\<rparr>]
   \<and> sessionIdRef deferredAfterStop = None \<and> recordingParamsRef deferredAfterStop = JNull
   \<and> \<not> isRecording (state deferredAfterStop) \<and> reconnectTimeouts deferredAfterStop = []
   \<and> step (Fire 8 False) deferredAfterStop = clearTimer 8 deferredAfterStop
   \<and> length (sockets (run [Fire 8 False, SocketOpen 0, Fire 4 False, Render] deferredAfterStop)) = 2
   \<and> reconnectTimeouts (run [Fire 8 False, SocketOpen 0, Fire 4 False, Render] deferredAfterStop) = []"
proof -
  have a: "stopRecording False deferredBeforeStop = (Completed, deferredAfterStop)"
    by (simp add: deferredAfterStop_def deferredBeforeStop_eq sampleWorld_eq stopRecording_def
        op_defs Let_def)
  have b: "sessionIdRef deferredBeforeStop = Some ''session_17''"
    by (simp add: deferredBeforeStop_eq sampleWorld_eq)
  have c: "\<forall>e\<in>set [Fire 8 False, SocketOpen 0, Fire 4 False, Render]. \<not> startsSession ''session_17'' e"
    by simp
  have d: "\<forall>e\<in>set [Fire 8 False, SocketOpen 0, Fire 4 False, Render]. \<not> isStart e"
    by simp
  have e: "step (Fire 8 False) deferredAfterStop = clearTimer 8 deferredAfterStop"
    by (simp add: deferredAfterStop_eq sampleWorld_eq fire_def runCallback_def closeDelayFired_def
        reconnectWebSocket_def falsyStr_def op_defs Let_def)
  have f: "closeDelayTimeouts deferredBeforeStop =
      [\<lparr>handle = 8, delay = 500, repeats = False, callback = CloseDelayCb True\<rparr>]"
    by (simp add: closeDelayTimeouts_def deferredBeforeStop_eq sampleWorld_eq)
  have g: "closeDelayTimeouts deferredAfterStop =
      [\<lparr>handle = 8, delay = 500, repeats = False, callback = CloseDelayCb True\<rparr>]"
    by (simp add: closeDelayTimeouts_def deferredAfterStop_eq sampleWorld_eq)
  have h: "length (sockets deferredAfterStop) = 2"
    by (simp add: deferredAfterStop_eq)
  from c2_no_transport_after_stop [OF deferredBeforeStop_run b a c] d e f g h show ?thesis
    by simp
qed

section \<open>Parameter fidelity\<close>

lemma fresh_fields [simp]:
  "freshSockets (w\<lparr>state := a\<rparr>) = freshSockets w"
  "freshSockets (w\<lparr>wsRef := b\<rparr>) = freshSockets w"
  "freshSockets (w\<lparr>reconnectAttemptsRef := c\<rparr>) = freshSockets w"
  "freshSockets (w\<lparr>pingIntervalRef := d\<rparr>) = freshSockets w"
  "freshSockets (w\<lparr>reconnectTimeoutRef := e\<rparr>) = freshSockets w"
  "freshSockets (w\<lparr>recordingParamsRef := f\<rparr>) = freshSockets w"
  "freshSockets (w\<lparr>statusPollIntervalRef := g\<rparr>) = freshSockets w"
  "freshSockets (w\<lparr>effect := h\<rparr>) = freshSockets w"
  "freshSockets (w\<lparr>nextTimer := i\<rparr>) = freshSockets w"
  "freshSockets (w\<lparr>timers := j\<rparr>) = freshSockets w"
  "freshSockets (w\<lparr>sessionIdRef := k\<rparr>) = freshSockets w"
  by (simp_all add: freshSockets_def)

lemma fresh_updSocket:
  assumes "freshSockets w" and "\<And>s. freshSocket s \<Longrightarrow> freshSocket (f s)"
  shows "freshSockets (updSocket i f w)"
proof -
  have "set ((sockets w)[i := f (sockets w ! i)]) \<subseteq> insert (f (sockets w ! i)) (set (sockets w))"
    by (rule set_update_subset_insert)
  moreover have "i < length (sockets w) \<Longrightarrow> freshSocket (f (sockets w ! i))"
    using assms by (simp add: freshSockets_def)
  ultimately show ?thesis
    using assms(1) by (auto simp: freshSockets_def updSocket_def)
qed

lemma fresh_ops [simp]:
  "freshSockets (setState f w) = freshSockets w"
  "freshSockets (setTimer d r c w) = freshSockets w"
  "freshSockets (clearTimer h w) = freshSockets w"
  "freshSockets (clearRef x w) = freshSockets w"
  by (simp_all add: setState_def setTimer_def clearTimer_def clearRef_def split: option.splits)

lemma fresh_send_close [simp]:
  assumes "freshSockets w"
  shows "freshSockets (wsSend i v w)" and "freshSockets (wsClose i w)"
    and "freshSockets (updSocket i (\<lambda>s. s\<lparr>readyState := OPEN\<rparr>) w)"
    and "freshSockets (updSocket i (\<lambda>s. s\<lparr>readyState := CLOSED\<rparr>) w)"
    and "freshSockets (updSocket i (\<lambda>s. s\<lparr>onmessage := True, onerror := Some rec,
                              onclose := Some (CloseSetup rec)\<rparr>) w)"
  using assms
  by (auto simp: wsSend_def wsClose_def freshSocket_def intro!: fresh_updSocket)

lemma fresh_reconnectWebSocket [simp]:
  "freshSockets (reconnectWebSocket rec w) = freshSockets w"
  by (simp add: reconnectWebSocket_def Let_def)

lemma fresh_setup [simp]:
  "freshSockets w \<Longrightarrow> freshSockets (setupWebSocketHandlers rec ws w)"
  by (simp add: setupWebSocketHandlers_def Let_def)

lemma fresh_create:
  assumes "freshSockets w" and "freshSocket (f \<lparr>url = u, readyState = CONNECTING, onopen = None,
                                 onmessage = False, onerror = None, onclose = None, sent = []\<rparr>)"
  shows "freshSockets (updSocket (length (sockets w)) f (newWebSocket u w))"
  using assms by (auto simp: freshSockets_def updSocket_def newWebSocket_def)

lemma fresh_handlers [simp]:
  assumes "freshSockets w"
  shows "freshSockets (pingFired rec ws throws w)"
    and "freshSockets (onerrorHandler rec w)"
    and "freshSockets (oncloseHandler c code w)"
    and "freshSockets (closeDelayFired rec w)"
    and "freshSockets (onmessageHandler data w)"
    and "freshSockets (onopenStart ws w)"
    and "freshSockets (onopenReconnect rec ws w)"
    and "freshSockets (clearClicked w)"
    and "freshSockets (handleVisibilityChange rec hidden w)"
    and "freshSockets (connectionCheckFired rec w)"
    and "freshSockets (pollResponse r w)"
    and "freshSockets (effectSetup rec w)"
    and "freshSockets (effectCleanup h w)"
    and "freshSockets (render w)"
    and "freshSockets (snd (stopRecording throws w))"
  using assms
  by (simp_all add: pingFired_def onerrorHandler_def oncloseHandler_def
      closeDelayFired_def onmessageHandler_def onopenStart_def onopenReconnect_def
      clearClicked_def handleVisibilityChange_def connectionCheckFired_def pollResponse_def
      effectSetup_def effectCleanup_def render_def stopRecording_def Let_def
      split: option.splits onclose_h.splits poll_result.splits)

lemma fresh_creators [simp]:
  assumes "freshSockets w"
  shows "freshSockets (reconnectTimerFired rec throws w)"
    and "freshSockets (startRecording rec st now throws w)"
proof -
  have a: "\<And>u v r n. freshSockets v \<Longrightarrow> n = length (sockets v) \<Longrightarrow>
        freshSockets (updSocket n
          (\<lambda>s. s\<lparr>onopen := Some (OpenReconnect r), onerror := Some r,
                   onclose := Some (CloseReconnect r)\<rparr>) (newWebSocket u v))"
    using fresh_create by (simp add: freshSocket_def)
  have b: "\<And>u v n. freshSockets v \<Longrightarrow> n = length (sockets v) \<Longrightarrow>
        freshSockets (updSocket n (\<lambda>s. s\<lparr>onopen := Some OpenStart\<rparr>) (newWebSocket u v))"
    using fresh_create by (simp add: freshSocket_def)
  have c: "\<And>i f u v x. updSocket i f (newWebSocket u v\<lparr>wsRef := x\<rparr>) =
             (updSocket i f (newWebSocket u v))\<lparr>wsRef := x\<rparr>"
    by (simp add: updSocket_def newWebSocket_def)
  show "freshSockets (reconnectTimerFired rec throws w)"
    using assms by (simp add: reconnectTimerFired_def Let_def c a)
  have d: "\<And>f v. sockets (setState f v) = sockets v"
    by (simp add: setState_def)
  show "freshSockets (startRecording rec st now throws w)"
    using assms by (simp add: startRecording_def Let_def c d b)
qed

lemma fresh_fire [simp]: "freshSockets w \<Longrightarrow> freshSockets (fire h throws w)"
  by (simp add: fire_def runCallback_def split: option.splits timer_cb.splits)

lemma fresh_socket [simp]:
  assumes "freshSockets w"
  shows "freshSockets (socketOpen i w)" and "freshSockets (socketClose i code w)"
  using assms
  by (simp_all add: socketOpen_def socketClose_def Let_def split: option.splits onopen_h.splits)

lemma fresh_step: "freshSockets w \<Longrightarrow> freshSockets (step e w)"
  by (cases e) (simp_all split: option.splits)

lemma fresh_run: "freshSockets w \<Longrightarrow> freshSockets (run evs w)"
  by (induction evs arbitrary: w) (simp_all add: fresh_step)

lemma socketOpen_sends:
  assumes "i < length (sockets w)" and "readyState (sockets w ! i) = CONNECTING"
    and "freshSockets w" and "recordingParamsRef w = paramsSnapshot st"
  shows "sent (sockets (socketOpen i w) ! i) = [paramsSnapshot st]"
proof -
  from assms(1,3) have "freshSocket (sockets w ! i)"
    by (simp add: freshSockets_def)
  with assms(2) have "sent (sockets w ! i) = []" and "onopen (sockets w ! i) \<noteq> None"
    by (simp_all add: freshSocket_def)
  with assms(1,2,4) show ?thesis
    by (auto simp: socketOpen_def wsIs_def Let_def onopenStart_def onopenReconnect_def
        reconnectFrame_paramsSnapshot setupWebSocketHandlers_def op_defs
        split: option.splits onopen_h.splits)
qed

lemma fresh_initial: "freshSockets initialWorld"
  by (simp add: freshSockets_def initialWorld_def)

lemma params_run:
  "\<forall>e\<in>set evs. \<not> sessionBoundary e \<Longrightarrow> recordingParamsRef (run evs w) = recordingParamsRef w"
proof (induction evs arbitrary: w)
  case Nil
  show ?case by simp
next
  case (Cons e evs)
  then have "\<not> sessionBoundary e"
    by simp
  then have "recordingParamsRef (step e w) = recordingParamsRef w"
    by (intro kept_step) auto
  with Cons show ?case
    by simp
qed

lemma params_startRecording:
  "recordingParamsRef (startRecording rec st now throws w) = paramsSnapshot st"
  by (simp add: startRecording_def Let_def)

text \<open>
  Claim C8.  Throughout a session, that is from \<^verbatim>\<open>startRecording\<close> over any events up
  to the next start or stop, the cached snapshot is the one built at the start.  Every
  socket that is still connecting has sent nothing, and when it opens, whether it is the
  socket of the initial open or the socket of a reconnect, the first frame its
  \<^verbatim>\<open>onopen\<close> sends is that snapshot: the object the reconnect handler rebuilds
  property by property equals the cached one, so the two serialisations are the same
  bytes under any encoding of strings and numbers.
\<close>

theorem c8_parameter_fidelity:
  assumes "w0 = run evs0 initialWorld"
    and "w = run evs (startRecording rec st now throws w0)"
    and "\<forall>e\<in>set evs. \<not> sessionBoundary e"
    and "i < length (sockets w)" and "readyState (sockets w ! i) = CONNECTING"
  shows "recordingParamsRef w = paramsSnapshot st
       \<and> reconnectFrame (recordingParamsRef w) = Some (recordingParamsRef w)
       \<and> sent (sockets w ! i) = []
       \<and> (onopen (sockets w ! i) = Some OpenStart
            \<or> (\<exists>r. onopen (sockets w ! i) = Some (OpenReconnect r)))
       \<and> sent (sockets (socketOpen i w) ! i) = [paramsSnapshot st]
       \<and> (\<forall>es en. map (stringify es en) (sent (sockets (socketOpen i w) ! i)) =
                     [stringify es en (paramsSnapshot st)])"
proof -
  have p: "recordingParamsRef w = paramsSnapshot st"
    unfolding assms(2) using params_run [OF assms(3)] by (simp add: params_startRecording)
  have "freshSockets w0"
    unfolding assms(1) by (rule fresh_run [OF fresh_initial])
  then have f: "freshSockets w"
    unfolding assms(2) by (intro fresh_run) simp
  with assms(4) have "freshSocket (sockets w ! i)"
    by (simp add: freshSockets_def)
  with assms(5) have e: "sent (sockets w ! i) = []" and o: "onopen (sockets w ! i) \<noteq> None"
    by (simp_all add: freshSocket_def)
  from o have k: "onopen (sockets w ! i) = Some OpenStart
        \<or> (\<exists>r. onopen (sockets w ! i) = Some (OpenReconnect r))"
    by (cases "onopen (sockets w ! i)") (auto intro: onopen_h.exhaust)
  have s: "sent (sockets (socketOpen i w) ! i) = [paramsSnapshot st]"
    using assms(4,5) f p by (rule socketOpen_sends)
  from p e k s show ?thesis
    by (simp add: reconnectFrame_paramsSnapshot)
qed

lemma twoSockets_eq:
  "twoSockets =
     sampleWorld\<lparr>wsRef := Some 1, reconnectTimeoutRef := Some 6, reconnectAttemptsRef := 1,
       nextTimer := 7,
       sockets := [\<lparr>url = ''ws://localhost:8000/ws/transcribe/session_17'',
                    readyState = CONNECTING, onopen = Some OpenStart, onmessage = True,
                    onerror = Some False, onclose = Some (CloseSetup False), sent = []\<rparr>,
                   \<lparr>url = ''ws://localhost:8000/ws/transcribe/session_17'',
                    readyState = CONNECTING, onopen = Some (OpenReconnect True),
                    onmessage = False, onerror = Some True,
                    onclose = Some (CloseReconnect True), sent = []\<rparr>]\<rparr>"
  by (simp add: twoSockets_def sampleWorld_eq handler_defs op_defs Let_def reconnectDelay_def)

lemma twoSockets_run:
  "twoSockets =
     run [Render, Fire 4 False, Fire 6 False]
       (startRecording False defaultSettings 17 False (run [Render] initialWorld))"
  by (simp add: twoSockets_def sampleWorld_def)

theorem c8_parameter_fidelity_witness:
  "onopen (sockets twoSockets ! 0) = Some OpenStart
   \<and> onopen (sockets twoSockets ! 1) = Some (OpenReconnect True)
   \<and> sent (sockets (socketOpen 0 twoSockets) ! 0) = [paramsSnapshot defaultSettings]
   \<and> sent (sockets (socketOpen 1 twoSockets) ! 1) = [paramsSnapshot defaultSettings]"
proof -
  have b: "\<forall>e\<in>set [Render, Fire 4 False, Fire 6 False]. \<not> sessionBoundary e"
    by simp
  have l: "0 < length (sockets twoSockets)" "1 < length (sockets twoSockets)"
    and c: "readyState (sockets twoSockets ! 0) = CONNECTING"
      "readyState (sockets twoSockets ! 1) = CONNECTING"
    and o: "onopen (sockets twoSockets ! 0) = Some OpenStart"
      "onopen (sockets twoSockets ! 1) = Some (OpenReconnect True)"
    by (simp_all add: twoSockets_eq sampleWorld_eq)
  from c8_parameter_fidelity [OF refl twoSockets_run b l(1) c(1)]
    c8_parameter_fidelity [OF refl twoSockets_run b l(2) c(2)] o
  show ?thesis
    by blast
qed

end
